theory Spec2Isabelle
  imports Main "HOL-Library.Sublist" "HOL-Library.AList"
begin

section \<open>ssh-mcp-server: the connection manager and the status collector\<close>

text \<open>
  A shallow embedding of \<^verbatim>\<open>SSHConnectionManager\<close> (services/ssh-connection-manager.ts)
  and of \<^verbatim>\<open>collectSystemStatus\<close> (utils/status-collector.ts).

  Conventions.
  \<^item> A JavaScript string is a \<open>string\<close> of ASCII characters.
  \<^item> An optional property (\<^verbatim>\<open>x?: T\<close>) is a \<open>T option\<close>; \<open>None\<close> is \<^verbatim>\<open>undefined\<close>.
  \<^item> A thrown exception or a rejected promise is an \<open>error\<close> value.
  \<^item> What the SSH library, the file system and the remote host do is an argument of the
    model (\<open>env\<close>, \<open>client\<close>); what the class does with it is defined here.
\<close>

subsection \<open>JavaScript values\<close>

text \<open>Truthiness of an optional string: \<^verbatim>\<open>undefined\<close> and \<^verbatim>\<open>""\<close> are falsy.\<close>

definition truthy :: "string option \<Rightarrow> bool" where
  "truthy v = (case v of None \<Rightarrow> False | Some s \<Rightarrow> s \<noteq> [])"

text \<open>\<^verbatim>\<open>name || fallback\<close> for an optional string.\<close>

definition or_else :: "string option \<Rightarrow> string \<Rightarrow> string" where
  "or_else v d = (case v of None \<Rightarrow> d | Some s \<Rightarrow> if s = [] then d else s)"

text \<open>\<^verbatim>\<open>s.split(c)\<close> for a one-character separator: \<^verbatim>\<open>"".split("|")\<close> is \<^verbatim>\<open>[""]\<close>.\<close>

fun split_on :: "char \<Rightarrow> string \<Rightarrow> string list" where
  "split_on c [] = [[]]"
| "split_on c (x # xs) =
     (if x = c then [] # split_on c xs
      else (case split_on c xs of [] \<Rightarrow> [[x]] | w # ws \<Rightarrow> (x # w) # ws))"

text \<open>\<^verbatim>\<open>xs.join(sep)\<close>.\<close>

fun join_with :: "string \<Rightarrow> string list \<Rightarrow> string" where
  "join_with sep [] = []"
| "join_with sep [x] = x"
| "join_with sep (x # y # ys) = x @ sep @ join_with sep (y # ys)"

text \<open>\<^verbatim>\<open>hay.includes(needle)\<close>.\<close>

fun includes_str :: "string \<Rightarrow> string \<Rightarrow> bool" where
  "includes_str [] needle = (needle = [])"
| "includes_str (h # hs) needle = (prefix needle (h # hs) \<or> includes_str hs needle)"

text \<open>White space (\<^verbatim>\<open>\\s\<close>, \<^verbatim>\<open>trim\<close>) among ASCII: tab, LF, VT, FF, CR and the space.\<close>

definition is_space :: "char \<Rightarrow> bool" where
  "is_space c = (let n = of_char c :: nat in (9 \<le> n \<and> n \<le> 13) \<or> n = 32)"

definition trim :: "string \<Rightarrow> string" where
  "trim s = rev (dropWhile is_space (rev (dropWhile is_space s)))"

definition is_digit :: "char \<Rightarrow> bool" where
  "is_digit c = (let n = of_char c :: nat in 48 \<le> n \<and> n \<le> 57)"

text \<open>\<^verbatim>\<open>xs[i]\<close>: \<^verbatim>\<open>undefined\<close> out of range.\<close>

definition nth_opt :: "'a list \<Rightarrow> nat \<Rightarrow> 'a option" where
  "nth_opt xs i = (if i < length xs then Some (xs ! i) else None)"

subsection \<open>Errors\<close>

text \<open>One constructor per \<^verbatim>\<open>throw\<close> / \<^verbatim>\<open>reject\<close> site of the two files, in source order.\<close>

datatype error =
    ConfigNotSet string                 \<comment> \<open>\<^verbatim>\<open>SSH configuration for '<key>' not set\<close>\<close>
  | SocksProxyFailed string string      \<comment> \<open>\<^verbatim>\<open>Failed to create SOCKS proxy connection for [<key>]: <msg>\<close>\<close>
  | PrivateKeyFailed string string      \<comment> \<open>\<^verbatim>\<open>Failed to read private key file for [<key>]: <msg>\<close>\<close>
  | NoAuthMethod string                 \<comment> \<open>\<^verbatim>\<open>No valid authentication method provided for [<key>]\<close>\<close>
  | ConnectionFailed string string      \<comment> \<open>\<^verbatim>\<open>SSH connection [<key>] failed: <msg>\<close>\<close>
  | ClientNotConnected string           \<comment> \<open>\<^verbatim>\<open>SSH client for '<key>' not connected\<close>\<close>
  | ClientNotInitialized string         \<comment> \<open>\<^verbatim>\<open>SSH client for '<key>' not initialized\<close>\<close>
  | RegExpSyntaxError string            \<comment> \<open>\<^verbatim>\<open>new RegExp(pattern)\<close> on an invalid pattern\<close>
  | ValidationFailed string             \<comment> \<open>\<^verbatim>\<open>Command validation failed: <reason>\<close>\<close>
  | ExecutionError string               \<comment> \<open>\<^verbatim>\<open>Command execution error: <msg>\<close>\<close>
  | StreamError string                  \<comment> \<open>\<^verbatim>\<open>Stream error: <msg>\<close>\<close>
  | PathTraversal                       \<comment> \<open>\<^verbatim>\<open>Path traversal detected. ...\<close>\<close>
  | SftpFailed string                   \<comment> \<open>\<^verbatim>\<open>SFTP connection failed: <msg>\<close>\<close>
  | UploadFailed string                 \<comment> \<open>\<^verbatim>\<open>File upload failed: <msg>\<close>\<close>
  | ReadLocalFailed string              \<comment> \<open>\<^verbatim>\<open>Failed to read local file: <msg>\<close>\<close>
  | SaveFailed string                   \<comment> \<open>\<^verbatim>\<open>Failed to save file: <msg>\<close>\<close>
  | DownloadFailed string               \<comment> \<open>\<^verbatim>\<open>File download failed: <msg>\<close>\<close>
  | RemoteError string                  \<comment> \<open>the error \<^verbatim>\<open>client.exec\<close> gave the collector's callback\<close>
  | CommandExited "int option"          \<comment> \<open>\<^verbatim>\<open>Command exited with code <code>\<close>\<close>

text \<open>A promise: still pending when the events it waits for never come.\<close>

datatype 'a promise = Pending | Rejected error | Resolved 'a

subsection \<open>models/types.ts\<close>

record SSHConfig =
  name :: "string option"
  host :: string
  port :: int
  username :: string
  password :: "string option"
  privateKey :: "string option"
  passphrase :: "string option"
  commandWhitelist :: "string list option"
  commandBlacklist :: "string list option"
  socksProxy :: "string option"

text \<open>
  \<^verbatim>\<open>SshConnectionConfigMap = Record<string, SSHConfig>\<close>: the entries in the order of
  \<^verbatim>\<open>Object.keys\<close>, each key once. A lookup \<^verbatim>\<open>configs[key]\<close> is \<open>map_of\<close>; the names
  that a plain object inherits (\<^verbatim>\<open>constructor\<close>, \<^verbatim>\<open>toString\<close>, \<^verbatim>\<open>__proto__\<close>, ...), which the
  source would find without a descriptor of that name, are outside the model.
\<close>

type_synonym SshConnectionConfigMap = "(string \<times> SSHConfig) list"

text \<open>
  A JavaScript number that came out of \<^verbatim>\<open>parseInt\<close>: \<^verbatim>\<open>NaN\<close> or an integer (the
  loss of precision beyond 2^53 is outside the model).
\<close>

datatype number = NaN | Num int

record FreeTotal =
  free :: string
  total :: string

record Drive =
  device :: string
  mountPoint :: string
  drive_total :: string
  drive_used :: string
  drive_free :: string
  usagePercent :: string

record Cpu =
  cpu_name :: "string option"
  cpu_usage :: "string option"

record Gpu =
  gpu_name :: string
  gpu_usage :: "string option"
  gpu_path :: "string option"

record Processes =
  running :: number
  threads :: number

record Services =
  services_running :: number
  installed :: number

record ServerStatus =
  reachable :: bool
  hostname :: "string option"
  ipAddresses :: "string list option"
  osName :: "string option"
  osVersion :: "string option"
  kernelVersion :: "string option"
  uptime :: "string option"
  diskSpace :: "FreeTotal option"
  drives :: "Drive list option"
  memory :: "FreeTotal option"
  cpu :: "Cpu option"
  gpus :: "Gpu list option"
  processes :: "Processes option"
  services :: "Services option"
  lastUpdated :: "string option"

subsection \<open>The manager's fields\<close>

text \<open>
  A \<^verbatim>\<open>Client\<close> object is the number \<open>new Client()\<close> gave it (0, 1, ...). The
  \<^verbatim>\<open>clients\<close> map is kept in insertion order because \<^verbatim>\<open>disconnect\<close> iterates it;
  \<open>AList.update\<close> is \<^verbatim>\<open>Map.prototype.set\<close> (in place for a known key, appended
  otherwise).
\<close>

type_synonym client_id = nat

record SSHConnectionManager =
  clients :: "(string \<times> client_id) list"
  configs :: SshConnectionConfigMap
  connected :: "string \<rightharpoonup> bool"
  statusCache :: "string \<rightharpoonup> ServerStatus"
  defaultName :: string

text \<open>
  What the class does to the world outside its own fields, recorded beside them:
  how many \<^verbatim>\<open>Client\<close> objects were constructed, on which of them
  \<^verbatim>\<open>client.connect(sshConfig)\<close> was called (each call starts one authentication
  sequence), which of these sequences are still in flight (the promise \<^verbatim>\<open>connect\<close>
  awaits is not settled), for which clients status collection is running, and on which
  \<^verbatim>\<open>client.end()\<close> was called.
\<close>

record ConnectConfig =
  cc_host :: string
  cc_port :: int
  cc_username :: string
  cc_sock :: bool
  cc_privateKey :: "string option"
  cc_passphrase :: "string option"
  cc_password :: "string option"

record runtime = SSHConnectionManager +
  created :: nat
  dialled :: "(client_id \<times> string \<times> ConnectConfig) list"
  inflight :: "(client_id \<times> string) list"
  collecting :: "(client_id \<times> string) list"
  ended :: "client_id list"

text \<open>The singleton as \<^verbatim>\<open>getInstance()\<close> first builds it.\<close>

definition initial :: runtime where
  "initial = \<lparr> clients = [], configs = [], connected = Map.empty, statusCache = Map.empty,
               defaultName = ''default'', created = 0, dialled = [], inflight = [], collecting = [],
               ended = [] \<rparr>"

subsection \<open>setConfig, getConfig, getClient\<close>

definition setConfig ::
  "SshConnectionConfigMap \<Rightarrow> string option \<Rightarrow> 'a SSHConnectionManager_scheme
    \<Rightarrow> 'a SSHConnectionManager_scheme" where
  "setConfig cfgs dflt m =
     (let m1 = m\<lparr>configs := cfgs\<rparr> in
      case dflt of
        Some d \<Rightarrow>
          if d \<noteq> [] \<and> map_of cfgs d \<noteq> None then m1\<lparr>defaultName := d\<rparr>
          else (case cfgs of [] \<Rightarrow> m1 | (k, _) # _ \<Rightarrow> m1\<lparr>defaultName := k\<rparr>)
      | None \<Rightarrow> (case cfgs of [] \<Rightarrow> m1 | (k, _) # _ \<Rightarrow> m1\<lparr>defaultName := k\<rparr>))"

definition getConfig :: "'a SSHConnectionManager_scheme \<Rightarrow> string option \<Rightarrow> error + SSHConfig" where
  "getConfig m nm =
     (let key = or_else nm (defaultName m) in
      case map_of (configs m) key of
        None \<Rightarrow> Inl (ConfigNotSet key)
      | Some c \<Rightarrow> Inr c)"

definition getClient :: "'a SSHConnectionManager_scheme \<Rightarrow> string option \<Rightarrow> error + client_id" where
  "getClient m nm =
     (let key = or_else nm (defaultName m) in
      case map_of (clients m) key of
        None \<Rightarrow> Inl (ClientNotConnected key)
      | Some c \<Rightarrow> Inr c)"

subsection \<open>validateCommand\<close>

text \<open>
  \<^verbatim>\<open>new RegExp(pattern)\<close> is the runtime's: it throws a SyntaxError on a pattern that is
  not a regular expression (\<open>None\<close>), and otherwise gives the \<^verbatim>\<open>test\<close> function of the
  compiled expression. The expression has no flags, so \<^verbatim>\<open>test\<close> keeps no state.
\<close>

type_synonym regexp = "string \<Rightarrow> (string \<Rightarrow> bool) option"

text \<open>
  \<^verbatim>\<open>patterns.some((pattern) => new RegExp(pattern).test(command))\<close>: the patterns are
  compiled one by one, up to the first that matches.
\<close>

fun some_test :: "regexp \<Rightarrow> string list \<Rightarrow> string \<Rightarrow> error + bool" where
  "some_test rx [] command = Inr False"
| "some_test rx (pattern # ps) command =
     (case rx pattern of
        None \<Rightarrow> Inl (RegExpSyntaxError pattern)
      | Some test \<Rightarrow> if test command then Inr True else some_test rx ps command)"

record Verdict =
  isAllowed :: bool
  reason :: "string option"

text \<open>\<^verbatim>\<open>list && list.length > 0\<close>.\<close>

definition configured :: "string list option \<Rightarrow> bool" where
  "configured l = (case l of None \<Rightarrow> False | Some ps \<Rightarrow> ps \<noteq> [])"

definition patterns :: "string list option \<Rightarrow> string list" where
  "patterns l = (case l of None \<Rightarrow> [] | Some ps \<Rightarrow> ps)"

definition validateCommand ::
  "regexp \<Rightarrow> 'a SSHConnectionManager_scheme \<Rightarrow> string \<Rightarrow> string option \<Rightarrow> error + Verdict" where
  "validateCommand rx m command nm =
     (case getConfig m nm of
        Inl e \<Rightarrow> Inl e
      | Inr config \<Rightarrow>
          (case (if configured (commandWhitelist config)
                 then some_test rx (patterns (commandWhitelist config)) command
                 else Inr True) of
             Inl e \<Rightarrow> Inl e
           | Inr matchesWhitelist \<Rightarrow>
               if \<not> matchesWhitelist
               then Inr \<lparr> isAllowed = False,
                          reason = Some ''Command not in whitelist, execution forbidden'' \<rparr>
               else
                 (case (if configured (commandBlacklist config)
                        then some_test rx (patterns (commandBlacklist config)) command
                        else Inr False) of
                    Inl e \<Rightarrow> Inl e
                  | Inr matchesBlacklist \<Rightarrow>
                      if matchesBlacklist
                      then Inr \<lparr> isAllowed = False,
                                 reason = Some ''Command matches blacklist, execution forbidden'' \<rparr>
                      else Inr \<lparr> isAllowed = True, reason = None \<rparr>)))"

subsection \<open>The environment\<close>

text \<open>
  What \<^verbatim>\<open>client.connect(sshConfig)\<close> leads to: the \<^verbatim>\<open>ready\<close> event, the
  \<^verbatim>\<open>error\<close> event, or neither.
\<close>

datatype handshake = HsReady | HsError string | HsSilent

text \<open>
  The events of a command's channel, in the order they are delivered. The code of
  \<^verbatim>\<open>close\<close> is absent when the channel closes without an exit status.
\<close>

datatype stream_event =
    Data string
  | StderrData string
  | Close "int option"
  | StreamErr string

text \<open>\<^verbatim>\<open>client.exec(command, callback)\<close>: the callback gets an error or a stream.\<close>

datatype exec_reply = ExecErr string | ExecStream "stream_event list"

text \<open>The events of the two streams of a transfer, in the order they are delivered.\<close>

datatype transfer_event = WriteClose | WriteFinish | WriteError string | ReadError string

record env =
  cwd :: string
    \<comment> \<open>\<^verbatim>\<open>process.cwd()\<close>\<close>
  readFileSync :: "string \<Rightarrow> string + string"
    \<comment> \<open>the file's text, or the message of the exception\<close>
  createConnection :: "string \<Rightarrow> string \<Rightarrow> int \<Rightarrow> string + unit"
    \<comment> \<open>\<^verbatim>\<open>new URL(proxy)\<close> and \<^verbatim>\<open>SocksClient.createConnection\<close> to host and port: a
       socket, or the message of the exception\<close>
  handshake :: "client_id \<Rightarrow> ConnectConfig \<Rightarrow> handshake"
  exec :: "client_id \<Rightarrow> string \<Rightarrow> int \<Rightarrow> exec_reply"
    \<comment> \<open>the reply to a command on a client, given the delay (ms) after which the caller
       asks the stream to close\<close>
  sftp :: "client_id \<Rightarrow> string option"
    \<comment> \<open>the error \<^verbatim>\<open>client.sftp\<close> hands its callback, if any\<close>
  upload_events :: "client_id \<Rightarrow> string \<Rightarrow> string \<Rightarrow> transfer_event list"
    \<comment> \<open>local path, remote path\<close>
  download_events :: "client_id \<Rightarrow> string \<Rightarrow> string \<Rightarrow> transfer_event list"
    \<comment> \<open>remote path, local path\<close>

subsection \<open>connect\<close>

text \<open>\<^verbatim>\<open>this.connected.get(key) && this.clients.get(key)\<close>.\<close>

definition is_connected :: "'a SSHConnectionManager_scheme \<Rightarrow> string \<Rightarrow> bool" where
  "is_connected m key = (connected m key = Some True \<and> map_of (clients m) key \<noteq> None)"

text \<open>
  The part of \<^verbatim>\<open>connect\<close> that runs up to \<^verbatim>\<open>client.connect(sshConfig)\<close>: it returns at
  once (\<open>Noop\<close>), throws before a client exists (\<open>Threw\<close>), rejects after
  \<^verbatim>\<open>new Client()\<close> (\<open>Failed\<close>), or starts the authentication of a new client (\<open>Dialled\<close>).
  Under \<open>truthy v\<close>, \<open>or_else v []\<close> is the string \<open>v\<close> holds.
\<close>

datatype begun =
    Noop
  | Threw error
  | Failed error runtime
  | Dialled client_id string ConnectConfig runtime

definition connect_begin :: "env \<Rightarrow> runtime \<Rightarrow> string option \<Rightarrow> begun" where
  "connect_begin e w nm =
     (let key = or_else nm (defaultName w) in
      if is_connected w key then Noop
      else
        (case getConfig w (Some key) of
           Inl err \<Rightarrow> Threw err
         | Inr config \<Rightarrow>
             (let client = created w;
                  w1 = w\<lparr>created := Suc (created w)\<rparr>;
                  sshConfig = \<lparr> cc_host = host config, cc_port = port config,
                                cc_username = username config, cc_sock = False,
                                cc_privateKey = None, cc_passphrase = None,
                                cc_password = None \<rparr>
              in
              case (if truthy (socksProxy config)
                    then (case createConnection e (or_else (socksProxy config) []) (host config) (port config) of
                            Inl msg \<Rightarrow> Inl (SocksProxyFailed key msg)
                          | Inr _ \<Rightarrow> Inr (sshConfig\<lparr>cc_sock := True\<rparr>))
                    else Inr sshConfig) of
                Inl err \<Rightarrow> Failed err w1
              | Inr sshConfig1 \<Rightarrow>
                  (case (if truthy (privateKey config)
                         then (case readFileSync e (or_else (privateKey config) []) of
                                 Inl msg \<Rightarrow> Inl (PrivateKeyFailed key msg)
                               | Inr text \<Rightarrow>
                                   Inr (sshConfig1\<lparr>cc_privateKey := Some text,
                                          cc_passphrase :=
                                            (if truthy (passphrase config) then passphrase config
                                             else None)\<rparr>))
                         else if truthy (password config)
                         then Inr (sshConfig1\<lparr>cc_password := password config\<rparr>)
                         else Inl (NoAuthMethod key)) of
                     Inl err \<Rightarrow> Failed err w1
                   | Inr sshConfig2 \<Rightarrow>
                       Dialled client key sshConfig2
                         (w1\<lparr>dialled := dialled w1 @ [(client, key, sshConfig2)],
                              inflight := inflight w1 @ [(client, key)]\<rparr>)))))"

text \<open>The three handlers \<^verbatim>\<open>connect\<close> registers on the client, for the key it was called with.\<close>

definition on_ready :: "client_id \<Rightarrow> string \<Rightarrow> runtime \<Rightarrow> runtime" where
  "on_ready client key w =
     w\<lparr>connected := (connected w)(key \<mapsto> True),
        collecting := collecting w @ [(client, key)]\<rparr>"

definition on_error :: "string \<Rightarrow> runtime \<Rightarrow> runtime" where
  "on_error key w = w\<lparr>connected := (connected w)(key \<mapsto> False)\<rparr>"

definition on_close :: "string \<Rightarrow> runtime \<Rightarrow> runtime" where
  "on_close key w = w\<lparr>connected := (connected w)(key \<mapsto> False)\<rparr>"

text \<open>After the awaited promise resolved: \<^verbatim>\<open>this.clients.set(key, client)\<close>.\<close>

definition connect_resume :: "client_id \<Rightarrow> string \<Rightarrow> runtime \<Rightarrow> runtime" where
  "connect_resume client key w = w\<lparr>clients := AList.update key client (clients w)\<rparr>"

text \<open>The promise of one attempt is settled: it is no longer in flight.\<close>

definition settle :: "client_id \<Rightarrow> runtime \<Rightarrow> runtime" where
  "settle client w = w\<lparr>inflight := filter (\<lambda>(c, k). c \<noteq> client) (inflight w)\<rparr>"

text \<open>
  The two callbacks on the promise of \<^verbatim>\<open>collectSystemStatus\<close>: the snapshot is cached, or
  a basic status is.
\<close>

definition status_collected :: "client_id \<Rightarrow> string \<Rightarrow> ServerStatus \<Rightarrow> runtime \<Rightarrow> runtime" where
  "status_collected client key status w =
     w\<lparr>statusCache := (statusCache w)(key \<mapsto> status),
        collecting := filter (\<lambda>(c, k). c \<noteq> client) (collecting w)\<rparr>"

definition basic_status :: "string \<Rightarrow> ServerStatus" where
  "basic_status now =
     \<lparr> reachable = True, hostname = None, ipAddresses = None, osName = None,
       osVersion = None, kernelVersion = None, uptime = None, diskSpace = None,
       drives = None, memory = None, cpu = None, gpus = None, processes = None,
       services = None, lastUpdated = Some now \<rparr>"

definition status_failed :: "client_id \<Rightarrow> string \<Rightarrow> string \<Rightarrow> runtime \<Rightarrow> runtime" where
  "status_failed client key now w = status_collected client key (basic_status now) w"

text \<open>
  One call of \<^verbatim>\<open>connect\<close> with nothing else running in between. The continuation after
  \<^verbatim>\<open>await\<close> is a microtask of the \<^verbatim>\<open>ready\<close> handler's turn, so the handle is stored
  before any other event is handled.
\<close>

definition connect :: "env \<Rightarrow> runtime \<Rightarrow> string option \<Rightarrow> unit promise \<times> runtime" where
  "connect e w nm =
     (case connect_begin e w nm of
        Noop \<Rightarrow> (Resolved (), w)
      | Threw err \<Rightarrow> (Rejected err, w)
      | Failed err w1 \<Rightarrow> (Rejected err, w1)
      | Dialled client key sshConfig w1 \<Rightarrow>
          (case handshake e client sshConfig of
             HsReady \<Rightarrow> (Resolved (), connect_resume client key (settle client (on_ready client key w1)))
           | HsError msg \<Rightarrow> (Rejected (ConnectionFailed key msg), settle client (on_error key w1))
           | HsSilent \<Rightarrow> (Pending, w1)))"

text \<open>\<^verbatim>\<open>connectAll\<close>: one name after the other; the first rejection ends the loop.\<close>

fun connect_each :: "env \<Rightarrow> runtime \<Rightarrow> string list \<Rightarrow> unit promise \<times> runtime" where
  "connect_each e w [] = (Resolved (), w)"
| "connect_each e w (n # ns) =
     (case connect e w (Some n) of
        (Resolved _, w1) \<Rightarrow> connect_each e w1 ns
      | (Rejected err, w1) \<Rightarrow> (Rejected err, w1)
      | (Pending, w1) \<Rightarrow> (Pending, w1))"

definition connectAll :: "env \<Rightarrow> runtime \<Rightarrow> unit promise \<times> runtime" where
  "connectAll e w = connect_each e w (map fst (configs w))"

definition ensureConnected :: "env \<Rightarrow> runtime \<Rightarrow> string option \<Rightarrow> client_id promise \<times> runtime" where
  "ensureConnected e w nm =
     (let key = or_else nm (defaultName w) in
      case (if \<not> is_connected w key then connect e w (Some key) else (Resolved (), w)) of
        (Pending, w1) \<Rightarrow> (Pending, w1)
      | (Rejected err, w1) \<Rightarrow> (Rejected err, w1)
      | (Resolved _, w1) \<Rightarrow>
          (case map_of (clients w1) key of
             None \<Rightarrow> (Rejected (ClientNotInitialized key), w1)
           | Some client \<Rightarrow> (Resolved client, w1)))"

subsection \<open>executeCommand\<close>

record ExecOptions =
  timeout :: "int option"

text \<open>\<^verbatim>\<open>options.timeout || 30000\<close>: \<^verbatim>\<open>undefined\<close> and \<^verbatim>\<open>0\<close> are falsy.\<close>

definition effective_timeout :: "ExecOptions \<Rightarrow> int" where
  "effective_timeout options =
     (case timeout options of None \<Rightarrow> 30000 | Some t \<Rightarrow> if t = 0 then 30000 else t)"

text \<open>
  The listeners on the stream: \<^verbatim>\<open>data\<close> appends to \<^verbatim>\<open>data\<close>, \<^verbatim>\<open>data\<close> on
  \<^verbatim>\<open>stream.stderr\<close> appends to \<^verbatim>\<open>errorData\<close>, \<^verbatim>\<open>close\<close> resolves with \<^verbatim>\<open>data\<close>,
  \<^verbatim>\<open>error\<close> rejects. The first of \<^verbatim>\<open>close\<close> and \<^verbatim>\<open>error\<close> settles the promise.
\<close>

fun on_stream :: "string \<Rightarrow> string \<Rightarrow> stream_event list \<Rightarrow> string promise" where
  "on_stream data errorData [] = Pending"
| "on_stream data errorData (Data chunk # es) = on_stream (data @ chunk) errorData es"
| "on_stream data errorData (StderrData chunk # es) = on_stream data (errorData @ chunk) es"
| "on_stream data errorData (Close code # es) = Resolved data"
| "on_stream data errorData (StreamErr msg # es) = Rejected (StreamError msg)"

definition executeCommand ::
  "regexp \<Rightarrow> env \<Rightarrow> runtime \<Rightarrow> string \<Rightarrow> string option \<Rightarrow> ExecOptions
    \<Rightarrow> string promise \<times> runtime" where
  "executeCommand rx e w cmdString nm options =
     (case validateCommand rx w cmdString nm of
        Inl err \<Rightarrow> (Rejected err, w)
      | Inr validationResult \<Rightarrow>
          if \<not> isAllowed validationResult
          then (Rejected (ValidationFailed (case reason validationResult of
                                              None \<Rightarrow> ''undefined'' | Some r \<Rightarrow> r)), w)
          else
            (case ensureConnected e w nm of
               (Pending, w1) \<Rightarrow> (Pending, w1)
             | (Rejected err, w1) \<Rightarrow> (Rejected err, w1)
             | (Resolved client, w1) \<Rightarrow>
                 (case exec e client cmdString (effective_timeout options) of
                    ExecErr msg \<Rightarrow> (Rejected (ExecutionError msg), w1)
                  | ExecStream events \<Rightarrow> (on_stream [] [] events, w1))))"

subsection \<open>validateLocalPath, upload, download\<close>

text \<open>
  \<^verbatim>\<open>path.resolve(localPath)\<close> of the runtime, on POSIX: a relative path is taken from the
  working directory; empty and \<^verbatim>\<open>.\<close> segments are dropped; \<^verbatim>\<open>..\<close> drops the segment
  before it (none at the root). Links of the file system are not followed.
\<close>

fun normalize :: "string list \<Rightarrow> string list \<Rightarrow> string list" where
  "normalize acc [] = acc"
| "normalize acc (seg # segs) =
     (if seg = [] \<or> seg = ''.'' then normalize acc segs
      else if seg = ''..'' then normalize (butlast acc) segs
      else normalize (acc @ [seg]) segs)"

definition segments :: "string \<Rightarrow> string list" where
  "segments p = normalize [] (split_on CHR ''/'' p)"

definition path_resolve :: "string \<Rightarrow> string \<Rightarrow> string" where
  "path_resolve wd p =
     ''/'' @ join_with ''/''
       (segments (case p of [] \<Rightarrow> wd
                  | c # _ \<Rightarrow> if c = CHR ''/'' then p else wd @ ''/'' @ p))"

text \<open>\<^verbatim>\<open>resolvedPath.startsWith(workingDir)\<close> is \<open>prefix workingDir resolvedPath\<close>.\<close>

definition validateLocalPath :: "env \<Rightarrow> string \<Rightarrow> error + string" where
  "validateLocalPath e localPath =
     (let resolvedPath = path_resolve (cwd e) localPath;
          workingDir = cwd e
      in if \<not> prefix workingDir resolvedPath then Inl PathTraversal else Inr resolvedPath)"

text \<open>The first event with a listener that settles the promise decides the transfer.\<close>

fun on_upload :: "transfer_event list \<Rightarrow> string promise" where
  "on_upload [] = Pending"
| "on_upload (WriteClose # es) = Resolved ''File uploaded successfully''"
| "on_upload (WriteError msg # es) = Rejected (UploadFailed msg)"
| "on_upload (ReadError msg # es) = Rejected (ReadLocalFailed msg)"
| "on_upload (WriteFinish # es) = on_upload es"

fun on_download :: "transfer_event list \<Rightarrow> string promise" where
  "on_download [] = Pending"
| "on_download (WriteFinish # es) = Resolved ''File downloaded successfully''"
| "on_download (WriteError msg # es) = Rejected (SaveFailed msg)"
| "on_download (ReadError msg # es) = Rejected (DownloadFailed msg)"
| "on_download (WriteClose # es) = on_download es"

definition upload ::
  "env \<Rightarrow> runtime \<Rightarrow> string \<Rightarrow> string \<Rightarrow> string option \<Rightarrow> string promise \<times> runtime" where
  "upload e w localPath remotePath nm =
     (case validateLocalPath e localPath of
        Inl err \<Rightarrow> (Rejected err, w)
      | Inr validatedLocalPath \<Rightarrow>
          (case ensureConnected e w nm of
             (Pending, w1) \<Rightarrow> (Pending, w1)
           | (Rejected err, w1) \<Rightarrow> (Rejected err, w1)
           | (Resolved client, w1) \<Rightarrow>
               (case sftp e client of
                  Some msg \<Rightarrow> (Rejected (SftpFailed msg), w1)
                | None \<Rightarrow> (on_upload (upload_events e client validatedLocalPath remotePath), w1))))"

definition download ::
  "env \<Rightarrow> runtime \<Rightarrow> string \<Rightarrow> string \<Rightarrow> string option \<Rightarrow> string promise \<times> runtime" where
  "download e w remotePath localPath nm =
     (case validateLocalPath e localPath of
        Inl err \<Rightarrow> (Rejected err, w)
      | Inr validatedLocalPath \<Rightarrow>
          (case ensureConnected e w nm of
             (Pending, w1) \<Rightarrow> (Pending, w1)
           | (Rejected err, w1) \<Rightarrow> (Rejected err, w1)
           | (Resolved client, w1) \<Rightarrow>
               (case sftp e client of
                  Some msg \<Rightarrow> (Rejected (SftpFailed msg), w1)
                | None \<Rightarrow> (on_download (download_events e client remotePath validatedLocalPath), w1))))"

subsection \<open>disconnect, getAllServerInfos\<close>

definition disconnect :: "runtime \<Rightarrow> runtime" where
  "disconnect w =
     (if length (clients w) > 0
      then w\<lparr>ended := ended w @ map snd (clients w), clients := []\<rparr>
      else w)"

record ServerInfo =
  info_name :: string
  info_host :: string
  info_port :: int
  info_username :: string
  info_connected :: bool
  info_status :: "ServerStatus option"

definition getAllServerInfos :: "'a SSHConnectionManager_scheme \<Rightarrow> ServerInfo list" where
  "getAllServerInfos m =
     map (\<lambda>(key, config).
            \<lparr> info_name = key, info_host = host config, info_port = port config,
              info_username = username config,
              info_connected = (connected m key = Some True),
              info_status = statusCache m key \<rparr>)
         (configs m)"

subsection \<open>utils/status-collector.ts\<close>

text \<open>
  \<^verbatim>\<open>parseInt(s, 10)\<close>: leading white space, an optional sign, then the longest run of
  digits; \<^verbatim>\<open>NaN\<close> when there is no digit.
\<close>

definition digits_value :: "string \<Rightarrow> nat" where
  "digits_value ds = foldl (\<lambda>acc c. 10 * acc + (of_char c - 48)) 0 ds"

definition parseInt :: "string \<Rightarrow> number" where
  "parseInt s =
     (let s1 = dropWhile is_space s;
          neg = (case s1 of [] \<Rightarrow> False | c # _ \<Rightarrow> c = CHR ''-'');
          s2 = (case s1 of [] \<Rightarrow> [] | c # r \<Rightarrow> if c = CHR ''-'' \<or> c = CHR ''+'' then r else s1);
          ds = takeWhile is_digit s2
      in if ds = [] then NaN
         else Num (if neg then - int (digits_value ds) else int (digits_value ds)))"

text \<open>\<^verbatim>\<open>Math.max(0, x - 1)\<close>; \<^verbatim>\<open>NaN\<close> stays \<^verbatim>\<open>NaN\<close>.\<close>

definition count_minus_header :: "number \<Rightarrow> number" where
  "count_minus_header x = (case x of NaN \<Rightarrow> NaN | Num n \<Rightarrow> Num (max 0 (n - 1)))"

text \<open>
  The floating-point conversions are the runtime's: \<open>toFixed1 s\<close> is
  \<^verbatim>\<open>parseFloat(s).toFixed(1)\<close>, \<open>isNaN_parseFloat s\<close> is \<^verbatim>\<open>isNaN(parseFloat(s))\<close>.
\<close>

record floats =
  toFixed1 :: "string \<Rightarrow> string"
  isNaN_parseFloat :: "string \<Rightarrow> bool"

text \<open>
  \<^verbatim>\<open>value.match(/free:(\S+)\s+total:(\S+)/)\<close>: the two groups of the leftmost match.
  Each \<^verbatim>\<open>+\<close> can only succeed on the longest run, since what follows it starts with a
  character outside its class.
\<close>

definition match_free_total_here :: "string \<Rightarrow> (string \<times> string) option" where
  "match_free_total_here s =
     (if prefix ''free:'' s then
        (let r = drop 5 s;
             g1 = takeWhile (\<lambda>c. \<not> is_space c) r;
             r1 = dropWhile (\<lambda>c. \<not> is_space c) r;
             ws = takeWhile is_space r1;
             r2 = dropWhile is_space r1
         in if g1 \<noteq> [] \<and> ws \<noteq> [] \<and> prefix ''total:'' r2 then
              (let g2 = takeWhile (\<lambda>c. \<not> is_space c) (drop 6 r2)
               in if g2 \<noteq> [] then Some (g1, g2) else None)
            else None)
      else None)"

fun match_free_total :: "string \<Rightarrow> (string \<times> string) option" where
  "match_free_total [] = match_free_total_here []"
| "match_free_total (c # cs) =
     (case match_free_total_here (c # cs) of
        Some groups \<Rightarrow> Some groups
      | None \<Rightarrow> match_free_total cs)"

text \<open>
  The diagnostic commands, by their key in the \<^verbatim>\<open>commands\<close> object. The remote side is
  the reply of \<^verbatim>\<open>client.exec\<close> to each of them.
\<close>

datatype command =
    Hostname | IpAddresses | OsName | OsVersion | KernelVersion | Uptime | DiskSpace
  | Memory | CpuName | CpuUsage | Gpus | GpuPaths | Drives | ProcessCount | ThreadCount
  | ServicesRunning | ServicesInstalled

type_synonym remote = "command \<Rightarrow> exec_reply"

text \<open>
  The listeners of \<^verbatim>\<open>execCommand\<close>: both \<^verbatim>\<open>data\<close> events append to \<^verbatim>\<open>data\<close>;
  \<^verbatim>\<open>close\<close> resolves with the trimmed text when the code is 0 and rejects otherwise.
  There is no \<^verbatim>\<open>error\<close> listener, so that event settles nothing.
\<close>

fun on_command_stream :: "string \<Rightarrow> stream_event list \<Rightarrow> string promise" where
  "on_command_stream data [] = Pending"
| "on_command_stream data (Data chunk # es) = on_command_stream (data @ chunk) es"
| "on_command_stream data (StderrData chunk # es) = on_command_stream (data @ chunk) es"
| "on_command_stream data (Close code # es) =
     (if code = Some 0 then Resolved (trim data) else Rejected (CommandExited code))"
| "on_command_stream data (StreamErr msg # es) = on_command_stream data es"

definition execCommand :: "remote \<Rightarrow> command \<Rightarrow> string promise" where
  "execCommand client c =
     (case client c of
        ExecErr msg \<Rightarrow> Rejected (RemoteError msg)
      | ExecStream events \<Rightarrow> on_command_stream [] events)"

text \<open>\<^verbatim>\<open>promise.catch(() => d)\<close>.\<close>

definition catch_with :: "'a \<Rightarrow> 'a promise \<Rightarrow> 'a promise" where
  "catch_with d p = (case p of Rejected err \<Rightarrow> Resolved d | Resolved v \<Rightarrow> Resolved v | Pending \<Rightarrow> Pending)"

text \<open>
  \<^verbatim>\<open>await Promise.allSettled([...])\<close> over promises that cannot reject: the values once
  all are settled, pending for ever when one is.
\<close>

fun allSettled :: "'a promise list \<Rightarrow> 'a list option" where
  "allSettled [] = Some []"
| "allSettled (Resolved v # ps) = map_option ((#) v) (allSettled ps)"
| "allSettled (p # ps) = None"

text \<open>\<^verbatim>\<open>text.split("\n").filter((line) => line.trim())\<close>.\<close>

definition nonblank_lines :: "string \<Rightarrow> string list" where
  "nonblank_lines s = filter (\<lambda>line. trim line \<noteq> []) (split_on (CHR 0x0A) s)"

definition parse_gpu :: "floats \<Rightarrow> string list \<Rightarrow> nat \<times> string \<Rightarrow> Gpu list" where
  "parse_gpu fl gpuPaths il =
     (let index = fst il; parts = split_on CHR ''|'' (snd il) in
      if length parts \<ge> 2 then
        (let gname = trim (parts ! 1);
             gusage = map_option trim (nth_opt parts 2)
         in if gname \<noteq> [] \<and> gname \<noteq> ''N/A'' then
              [\<lparr> gpu_name = gname,
                 gpu_usage =
                   (case gusage of
                      None \<Rightarrow> None
                    | Some u \<Rightarrow>
                        if u \<noteq> [] \<and> trim u \<noteq> [] \<and> trim u \<noteq> ''N/A''
                           \<and> \<not> isNaN_parseFloat fl (trim u)
                        then Some (toFixed1 fl (trim u) @ ''%'') else None),
                 gpu_path =
                   (case nth_opt gpuPaths index of
                      None \<Rightarrow> None
                    | Some pth \<Rightarrow> if pth \<noteq> [] then Some pth else None) \<rparr>]
            else [])
      else [])"

definition parse_drive :: "string \<Rightarrow> Drive list" where
  "parse_drive line =
     (let parts = split_on CHR ''|'' line in
      if length parts \<ge> 6 then
        (let dev = trim (parts ! 0); tot = trim (parts ! 1); usd = trim (parts ! 2);
             fre = trim (parts ! 3); pct = trim (parts ! 4); mnt = trim (parts ! 5)
         in if dev \<noteq> [] \<and> mnt \<noteq> [] then
              [\<lparr> device = dev, mountPoint = mnt, drive_total = tot, drive_used = usd,
                 drive_free = fre, usagePercent = pct \<rparr>]
            else [])
      else [])"

text \<open>\<^verbatim>\<open>if (v) status.field = v\<close> for a string \<^verbatim>\<open>v\<close>.\<close>

definition nonempty :: "string \<Rightarrow> string option" where
  "nonempty v = (if v \<noteq> [] then Some v else None)"

text \<open>
  The body of the \<^verbatim>\<open>try\<close> after the results are in. Every promise of the batch is the
  result of a \<^verbatim>\<open>catch\<close>, so each result is \<^verbatim>\<open>fulfilled\<close> and the tests of
  \<^verbatim>\<open>status === "fulfilled"\<close> hold.
\<close>

definition assemble :: "floats \<Rightarrow> string \<Rightarrow> string list \<Rightarrow> ServerStatus" where
  "assemble fl now r =
     (let hostnameV = r ! 0; ipAddressesV = r ! 1; osNameV = r ! 2; osVersionV = r ! 3;
          kernelVersionV = r ! 4; uptimeV = r ! 5; diskSpaceV = r ! 6; memoryV = r ! 7;
          cpuNameV = r ! 8; cpuUsageV = r ! 9; gpusV = r ! 10; gpuPathsV = r ! 11;
          drivesV = r ! 12; processesV = r ! 13; threadsV = r ! 14;
          servicesRunningV = r ! 15; servicesInstalledV = r ! 16;
          cpu0 = (if cpuNameV \<noteq> [] \<and> trim cpuNameV \<noteq> []
                  then Some \<lparr> cpu_name = Some (trim cpuNameV), cpu_usage = None \<rparr>
                  else None);
          gpuPaths = (if gpuPathsV \<noteq> [] then nonblank_lines gpuPathsV else []);
          gpuLines = nonblank_lines gpusV;
          gpuList = concat (map (parse_gpu fl gpuPaths) (zip [0 ..< length gpuLines] gpuLines));
          driveList = concat (map parse_drive (nonblank_lines drivesV))
      in \<lparr> reachable = True,
           hostname = nonempty hostnameV,
           ipAddresses =
             (if ipAddressesV \<noteq> []
              then Some (filter (\<lambda>ip. trim ip \<noteq> [] \<and> \<not> includes_str ip ''127.0.0.1'')
                           (split_on (CHR 0x0A) ipAddressesV))
              else None),
           osName = nonempty osNameV,
           osVersion = nonempty osVersionV,
           kernelVersion = nonempty kernelVersionV,
           uptime = nonempty uptimeV,
           diskSpace =
             (if diskSpaceV \<noteq> []
              then map_option (\<lambda>(f, t). \<lparr> free = f, total = t \<rparr>) (match_free_total diskSpaceV)
              else None),
           drives =
             (if drivesV \<noteq> [] \<and> trim drivesV \<noteq> [] \<and> length driveList > 0
              then Some driveList else None),
           memory =
             (if memoryV \<noteq> []
              then map_option (\<lambda>(f, t). \<lparr> free = f, total = t \<rparr>) (match_free_total memoryV)
              else None),
           cpu =
             (case cpu0 of
                None \<Rightarrow> None
              | Some c \<Rightarrow>
                  if cpuUsageV \<noteq> [] \<and> cpuUsageV \<noteq> ''N/A''
                  then Some (c\<lparr>cpu_usage := Some (toFixed1 fl cpuUsageV @ ''%'')\<rparr>)
                  else Some c),
           gpus =
             (if gpusV \<noteq> [] \<and> trim gpusV \<noteq> [] \<and> length gpuList > 0
              then Some gpuList else None),
           processes =
             Some \<lparr> running = count_minus_header (parseInt processesV),
                    threads = count_minus_header (parseInt threadsV) \<rparr>,
           services =
             Some \<lparr> services_running = count_minus_header (parseInt servicesRunningV),
                    installed = count_minus_header (parseInt servicesInstalledV) \<rparr>,
           lastUpdated = Some now \<rparr>)"

text \<open>
  \<^verbatim>\<open>collectSystemStatus\<close>. \<open>now\<close> is \<^verbatim>\<open>new Date().toISOString()\<close>. The result is
  \<open>None\<close> when a command's stream never closes: the function then never returns. Nothing
  in the \<^verbatim>\<open>try\<close> throws, so the \<^verbatim>\<open>catch\<close> that sets \<^verbatim>\<open>reachable = false\<close> has no
  branch here.
\<close>

definition default_of :: "command \<Rightarrow> string" where
  "default_of c =
     (if c = ProcessCount \<or> c = ThreadCount \<or> c = ServicesRunning \<or> c = ServicesInstalled
      then ''0'' else [])"

definition batch :: "command list" where
  "batch = [Hostname, IpAddresses, OsName, OsVersion, KernelVersion, Uptime, DiskSpace,
            Memory, CpuName, CpuUsage, Gpus, GpuPaths, Drives, ProcessCount, ThreadCount,
            ServicesRunning, ServicesInstalled]"

definition collectSystemStatus :: "floats \<Rightarrow> remote \<Rightarrow> string \<Rightarrow> ServerStatus option" where
  "collectSystemStatus fl client now =
     map_option (assemble fl now)
       (allSettled (map (\<lambda>c. catch_with (default_of c) (execCommand client c)) batch))"

subsection \<open>Calls and events in any order\<close>

text \<open>
  The runtime runs one turn at a time: the synchronous start of a call, or the handlers of
  one event of a client. Calls that overlap are turns in some order. A turn of
  \<^verbatim>\<open>executeCommand\<close> that passes validation starts \<^verbatim>\<open>ensureConnected\<close>, which calls
  \<^verbatim>\<open>connect\<close> unless the name is connected. \<open>StatusCollected client status\<close> is the turn
  in which the promise of the \<^verbatim>\<open>collectSystemStatus\<close> that the \<^verbatim>\<open>ready\<close> handler of
  the client started resolves with \<open>status\<close>; nothing cancels that collection.
\<close>

datatype turn =
    CallConnect "string option"
  | CallExecuteCommand string "string option"
  | ClientReady client_id
  | ClientError client_id string
  | ClientClose client_id
  | StatusCollected client_id ServerStatus
  | CallDisconnect

text \<open>The key the handlers of a client were registered for.\<close>

definition key_of :: "runtime \<Rightarrow> client_id \<Rightarrow> string option" where
  "key_of w client = map_of (map (\<lambda>(c, k, cfg). (c, k)) (dialled w)) client"

definition after_begin :: "runtime \<Rightarrow> begun \<Rightarrow> runtime" where
  "after_begin w b =
     (case b of Noop \<Rightarrow> w | Threw err \<Rightarrow> w | Failed err w1 \<Rightarrow> w1 | Dialled c k cfg w1 \<Rightarrow> w1)"

definition step :: "regexp \<Rightarrow> env \<Rightarrow> runtime \<Rightarrow> turn \<Rightarrow> runtime" where
  "step rx e w t =
     (case t of
        CallConnect nm \<Rightarrow> after_begin w (connect_begin e w nm)
      | CallExecuteCommand cmdString nm \<Rightarrow>
          (case validateCommand rx w cmdString nm of
             Inl err \<Rightarrow> w
           | Inr v \<Rightarrow>
               if \<not> isAllowed v then w
               else
                 (let key = or_else nm (defaultName w) in
                  if \<not> is_connected w key then after_begin w (connect_begin e w (Some key))
                  else w))
      | ClientReady client \<Rightarrow>
          (case key_of w client of
             None \<Rightarrow> w
           | Some key \<Rightarrow>
               if (client, key) \<in> set (inflight w)
               then connect_resume client key (settle client (on_ready client key w))
               else on_ready client key w)
      | ClientError client msg \<Rightarrow>
          (case key_of w client of
             None \<Rightarrow> w
           | Some key \<Rightarrow> settle client (on_error key w))
      | ClientClose client \<Rightarrow>
          (case key_of w client of
             None \<Rightarrow> w
           | Some key \<Rightarrow> on_close key w)
      | StatusCollected client status \<Rightarrow>
          (case key_of w client of
             None \<Rightarrow> w
           | Some key \<Rightarrow>
               if (client, key) \<in> set (collecting w)
               then status_collected client key status w
               else w)
      | CallDisconnect \<Rightarrow> disconnect w)"

definition run :: "regexp \<Rightarrow> env \<Rightarrow> runtime \<Rightarrow> turn list \<Rightarrow> runtime" where
  "run rx e w ts = foldl (step rx e) w ts"

subsection \<open>What a stream wrote\<close>



subsection \<open>What the specification describes\<close>

text \<open>The directory tree below a directory: the paths whose segments begin with its own.\<close>

definition within_tree :: "string \<Rightarrow> string \<Rightarrow> bool" where
  "within_tree dir p = prefix (segments dir) (segments p)"

text \<open>
  The command matches a pattern when the pattern compiles and its \<^verbatim>\<open>test\<close> accepts the
  command; a string that is not a regular expression matches nothing.
\<close>

definition matches :: "regexp \<Rightarrow> string \<Rightarrow> string \<Rightarrow> bool" where
  "matches rx pattern command = (case rx pattern of None \<Rightarrow> False | Some test \<Rightarrow> test command)"

text \<open>
  Allowed exactly when (the allow-list is absent or empty, or the command matches at least
  one allow pattern) and (the deny-list is absent or empty, or the command matches no deny
  pattern).
\<close>

definition policy_allows :: "regexp \<Rightarrow> SSHConfig \<Rightarrow> string \<Rightarrow> bool" where
  "policy_allows rx config command =
     ((\<not> configured (commandWhitelist config)
        \<or> (\<exists>p \<in> set (patterns (commandWhitelist config)). matches rx p command))
      \<and> (\<not> configured (commandBlacklist config)
        \<or> \<not> (\<exists>p \<in> set (patterns (commandBlacklist config)). matches rx p command)))"

text \<open>
  An engine to run examples with. It is ECMAScript's on the two kinds of pattern the
  examples use: a pattern of letters, digits and spaces compiles and accepts the strings
  that contain it; the pattern \<^verbatim>\<open>(\<close>, an unterminated group, is a SyntaxError. Every
  other pattern is refused here, which no example relies on.
\<close>

definition literal_char :: "char \<Rightarrow> bool" where
  "literal_char c =
     (let n = of_char c :: nat in
      (48 \<le> n \<and> n \<le> 57) \<or> (65 \<le> n \<and> n \<le> 90) \<or> (97 \<le> n \<and> n \<le> 122) \<or> n = 32)"

definition RegExp_examples :: regexp where
  "RegExp_examples pattern =
     (if list_all literal_char pattern then Some (\<lambda>command. includes_str command pattern)
      else None)"

subsection \<open>Examples\<close>

text \<open>Two descriptors: \<open>dev\<close> with both lists, \<open>prod\<close> with a deny pattern that does not compile.\<close>

definition dev_config :: SSHConfig where
  "dev_config =
     \<lparr> name = Some ''dev'', host = ''10.0.0.5'', port = 22, username = ''ops'',
       password = Some ''secret'', privateKey = None, passphrase = None,
       commandWhitelist = Some [''ls'', ''df''], commandBlacklist = Some [''rm''],
       socksProxy = None \<rparr>"

definition prod_config :: SSHConfig where
  "prod_config =
     \<lparr> name = Some ''prod'', host = ''10.0.0.6'', port = 22, username = ''ops'',
       password = Some ''secret'', privateKey = None, passphrase = None,
       commandWhitelist = None, commandBlacklist = Some [''(''],
       socksProxy = None \<rparr>"

definition configured_manager :: runtime where
  "configured_manager = setConfig [(''dev'', dev_config), (''prod'', prod_config)] None initial"

text \<open>
  A host that accepts every login and, to every command, writes \<^verbatim>\<open>out\<close> on standard
  output and \<^verbatim>\<open>err\<close> on standard error before it exits with code 2. The process runs
  in \<^verbatim>\<open>/srv/app\<close>.
\<close>

definition demo_env :: env where
  "demo_env =
     \<lparr> cwd = ''/srv/app'',
       readFileSync = (\<lambda>file. Inl ''ENOENT''),
       createConnection = (\<lambda>proxy h p. Inl ''ECONNREFUSED''),
       handshake = (\<lambda>client sshConfig. HsReady),
       exec = (\<lambda>client command delay.
                 ExecStream [Data ''out'', StderrData ''err'', Close (Some 2)]),
       sftp = (\<lambda>client. None),
       upload_events = (\<lambda>client l r. [WriteFinish, WriteClose]),
       download_events = (\<lambda>client r l. [WriteFinish, WriteClose]) \<rparr>"

text \<open>A session on which every command exits with code 127.\<close>

definition failing_remote :: remote where
  "failing_remote c = ExecStream [StderrData ''sh: not found'', Close (Some 127)]"

text \<open>A session on which only the disk-usage command succeeds.\<close>

definition disk_only_remote :: remote where
  "disk_only_remote c =
     (if c = DiskSpace then ExecStream [Data ''free:12G total:40G'', Close (Some 0)]
      else ExecStream [StderrData ''sh: not found'', Close (Some 127)])"

text \<open>Conversions for runs that convert no number.\<close>

definition no_floats :: floats where
  "no_floats = \<lparr> toFixed1 = (\<lambda>s. ''NaN''), isNaN_parseFloat = (\<lambda>s. True) \<rparr>"

text \<open>The registry after \<^verbatim>\<open>connect("dev")\<close> on that host, and after a snapshot was cached.\<close>

definition dev_connect_config :: ConnectConfig where
  "dev_connect_config =
     \<lparr> cc_host = ''10.0.0.5'', cc_port = 22, cc_username = ''ops'', cc_sock = False,
       cc_privateKey = None, cc_passphrase = None, cc_password = Some ''secret'' \<rparr>"

definition connected_manager :: runtime where
  "connected_manager = snd (connect demo_env configured_manager (Some ''dev''))"

definition cached_manager :: runtime where
  "cached_manager =
     status_collected 0 ''dev'' (basic_status ''2026-01-01T00:00:00.000Z'') connected_manager"

text \<open>
  A host on which a command prints \<^verbatim>\<open>tick\<close> every ten seconds and never ends by itself:
  its stream closes, without an exit status, when the caller asks for it after the delay.
\<close>

definition ticking_env :: env where
  "ticking_env =
     demo_env\<lparr> exec := (\<lambda>client command delay.
                  ExecStream (replicate (nat (delay div 10000)) (Data ''tick '')
                              @ [Close None])) \<rparr>"

text \<open>
  Two snapshots as \<^verbatim>\<open>collectSystemStatus\<close> returns them: one with the disk usage, one of
  a collection all of whose commands failed.
\<close>

definition disk_snapshot :: ServerStatus where
  "disk_snapshot =
     (basic_status ''2026-01-01T00:00:00.000Z'')
       \<lparr> diskSpace := Some \<lparr> free = ''12G'', total = ''40G'' \<rparr>,
         processes := Some \<lparr> running = Num 0, threads = Num 0 \<rparr>,
         services := Some \<lparr> services_running = Num 0, installed = Num 0 \<rparr> \<rparr>"

definition failed_snapshot :: ServerStatus where
  "failed_snapshot =
     (basic_status ''2026-01-01T00:05:00.000Z'')
       \<lparr> processes := Some \<lparr> running = Num 0, threads = Num 0 \<rparr>,
         services := Some \<lparr> services_running = Num 0, installed = Num 0 \<rparr> \<rparr>"

text \<open>
  The registry after \<open>dev\<close> was connected (client 0), its snapshot cached, the connection
  closed, and \<open>dev\<close> connected again (client 1), whose status collection is still running.
\<close>

definition reconnected_manager :: runtime where
  "reconnected_manager =
     run RegExp_examples demo_env configured_manager
       [CallConnect (Some ''dev''), ClientReady 0, StatusCollected 0 disk_snapshot,
        ClientClose 0, CallConnect (Some ''dev''), ClientReady 1]"

text \<open>The registry with a snapshot for \<open>dev\<close> after \<^verbatim>\<open>setConfig\<close> replaced the descriptors.\<close>

definition reconfigured_manager :: runtime where
  "reconfigured_manager = setConfig [(''prod'', prod_config)] None cached_manager"

section \<open>Properties\<close>

subsection \<open>Array.some over patterns\<close>

lemma some_test_True:
  "some_test rx ps c = Inr True \<Longrightarrow> \<exists>p \<in> set ps. matches rx p c"
  by (induction ps) (auto simp: matches_def split: option.splits if_splits)

lemma some_test_False:
  "some_test rx ps c = Inr False \<Longrightarrow> \<not> (\<exists>p \<in> set ps. matches rx p c)"
  by (induction ps) (auto simp: matches_def split: option.splits if_splits)

lemma some_test_valid:
  "\<forall>p \<in> set ps. rx p \<noteq> None \<Longrightarrow> \<exists>b. some_test rx ps c = Inr b"
  by (induction ps) (auto split: option.splits)

lemma some_test_verdict:
  "some_test rx ps c = Inr b \<Longrightarrow> b = (\<exists>p \<in> set ps. matches rx p c)"
  using some_test_True [of rx ps c] some_test_False [of rx ps c] by (cases b) auto

subsection \<open>The example registry\<close>

lemma getConfig_dev: "getConfig configured_manager None = Inr dev_config"
  by (simp add: getConfig_def configured_manager_def setConfig_def initial_def or_else_def)

lemma getConfig_dev_named: "getConfig configured_manager (Some ''dev'') = Inr dev_config"
  by (simp add: getConfig_def configured_manager_def setConfig_def initial_def or_else_def)

lemma getConfig_prod: "getConfig configured_manager (Some ''prod'') = Inr prod_config"
  by (simp add: getConfig_def configured_manager_def setConfig_def initial_def or_else_def)

lemma RegExp_examples_compiles:
  "RegExp_examples ''ls'' \<noteq> None" "RegExp_examples ''df'' \<noteq> None"
  "RegExp_examples ''rm'' \<noteq> None"
  by (simp_all add: RegExp_examples_def literal_char_def)

lemma validateCommand_dev_ls:
  "validateCommand RegExp_examples configured_manager ''ls la'' None
     = Inr \<lparr> isAllowed = True, reason = None \<rparr>"
  by (simp add: validateCommand_def getConfig_dev dev_config_def configured_def patterns_def
      RegExp_examples_def literal_char_def)

subsection \<open>C2: the verdict of validateCommand\<close>

lemma validateCommand_lists_only:
  assumes "getConfig m nm = Inr config" and "getConfig m' nm' = Inr config'"
    and "commandWhitelist config' = commandWhitelist config"
    and "commandBlacklist config' = commandBlacklist config"
  shows "validateCommand rx m' command nm' = validateCommand rx m command nm"
  using assms by (simp add: validateCommand_def cong: sum.case_cong if_cong)

text \<open>
  C2, as amended. For a name with a descriptor: whenever \<^verbatim>\<open>validateCommand\<close> returns a
  verdict, the verdict is allowed exactly when (the allow-list is absent or empty, or the
  command matches an allow pattern) and (the deny-list is absent or empty, or the command
  matches no deny pattern); it returns a verdict whenever every pattern of the two
  lists compiles; with a non-empty allow-list whose patterns compile and none of which the
  command matches, the verdict is the denial by the allow-list, whatever the deny-list;
  and the result is the same for every descriptor with the same two lists. (On a pattern
  that does not compile it throws instead, see the counterexample.)
\<close>

theorem validateCommand_verdict:
  assumes "getConfig m nm = Inr config"
  shows "(\<forall>v. validateCommand rx m command nm = Inr v
            \<longrightarrow> isAllowed v = policy_allows rx config command)
       \<and> ((\<forall>p \<in> set (patterns (commandWhitelist config))
                  \<union> set (patterns (commandBlacklist config)). rx p \<noteq> None)
            \<longrightarrow> (\<exists>v. validateCommand rx m command nm = Inr v))
       \<and> (configured (commandWhitelist config)
            \<and> (\<forall>p \<in> set (patterns (commandWhitelist config)). rx p \<noteq> None)
            \<and> \<not> (\<exists>p \<in> set (patterns (commandWhitelist config)). matches rx p command)
            \<longrightarrow> validateCommand rx m command nm
                  = Inr \<lparr> isAllowed = False,
                          reason = Some ''Command not in whitelist, execution forbidden'' \<rparr>)
       \<and> (\<forall>m' nm' config'.
             getConfig m' nm' = Inr config'
             \<and> commandWhitelist config' = commandWhitelist config
             \<and> commandBlacklist config' = commandBlacklist config
             \<longrightarrow> validateCommand rx m' command nm' = validateCommand rx m command nm)"
proof (intro conjI allI impI)
  fix v
  assume r: "validateCommand rx m command nm = Inr v"
  show "isAllowed v = policy_allows rx config command"
  proof (cases "configured (commandWhitelist config)")
    case wl: True
    then obtain a where a: "some_test rx (patterns (commandWhitelist config)) command = Inr a"
      using r assms by (auto simp: validateCommand_def split: sum.splits)
    note am = some_test_verdict [OF a]
    show ?thesis
    proof (cases a)
      case False
      with r assms wl a am show ?thesis
        by (auto simp: validateCommand_def policy_allows_def)
    next
      case aT: True
      show ?thesis
      proof (cases "configured (commandBlacklist config)")
        case bl: True
        then obtain b where b: "some_test rx (patterns (commandBlacklist config)) command = Inr b"
          using r assms wl a aT by (auto simp: validateCommand_def split: sum.splits)
        note bm = some_test_verdict [OF b]
        from r assms wl a aT bl b am bm show ?thesis
          by (cases b) (auto simp: validateCommand_def policy_allows_def)
      next
        case False
        with r assms wl a aT am show ?thesis
          by (auto simp: validateCommand_def policy_allows_def)
      qed
    qed
  next
    case wl: False
    show ?thesis
    proof (cases "configured (commandBlacklist config)")
      case bl: True
      then obtain b where b: "some_test rx (patterns (commandBlacklist config)) command = Inr b"
        using r assms wl by (auto simp: validateCommand_def split: sum.splits)
      note bm = some_test_verdict [OF b]
      from r assms wl bl b bm show ?thesis
        by (cases b) (auto simp: validateCommand_def policy_allows_def)
    next
      case False
      with r assms wl show ?thesis
        by (auto simp: validateCommand_def policy_allows_def)
    qed
  qed
next
  assume v: "\<forall>p \<in> set (patterns (commandWhitelist config))
                  \<union> set (patterns (commandBlacklist config)). rx p \<noteq> None"
  then obtain a where a: "some_test rx (patterns (commandWhitelist config)) command = Inr a"
    using some_test_valid [of "patterns (commandWhitelist config)" rx command] by auto
  from v obtain b where b: "some_test rx (patterns (commandBlacklist config)) command = Inr b"
    using some_test_valid [of "patterns (commandBlacklist config)" rx command] by auto
  from assms a b show "\<exists>v. validateCommand rx m command nm = Inr v"
    by (simp add: validateCommand_def)
next
  assume wl: "configured (commandWhitelist config)
            \<and> (\<forall>p \<in> set (patterns (commandWhitelist config)). rx p \<noteq> None)
            \<and> \<not> (\<exists>p \<in> set (patterns (commandWhitelist config)). matches rx p command)"
  then obtain a where a: "some_test rx (patterns (commandWhitelist config)) command = Inr a"
    using some_test_valid [of "patterns (commandWhitelist config)" rx command] by auto
  from some_test_verdict [OF a] wl have "\<not> a" by simp
  with assms wl a
  show "validateCommand rx m command nm
          = Inr \<lparr> isAllowed = False,
                  reason = Some ''Command not in whitelist, execution forbidden'' \<rparr>"
    by (simp add: validateCommand_def)
next
  fix m' :: "'b SSHConnectionManager_scheme" and nm' config'
  assume same: "getConfig m' nm' = Inr config'
             \<and> commandWhitelist config' = commandWhitelist config
             \<and> commandBlacklist config' = commandBlacklist config"
  show "validateCommand rx m' command nm' = validateCommand rx m command nm"
    by (rule validateCommand_lists_only
          [OF assms same [THEN conjunct1] same [THEN conjunct2, THEN conjunct1]
              same [THEN conjunct2, THEN conjunct2]])
qed

text \<open>
  The theorem on \<open>dev\<close> (allow \<^verbatim>\<open>ls\<close>, \<^verbatim>\<open>df\<close>; deny \<^verbatim>\<open>rm\<close>) and the command
  \<^verbatim>\<open>ls la\<close>: all three patterns compile, and the command is allowed.
\<close>

theorem validateCommand_verdict_witness:
  "getConfig configured_manager None = Inr dev_config
   \<and> RegExp_examples ''ls'' \<noteq> None \<and> RegExp_examples ''df'' \<noteq> None
   \<and> RegExp_examples ''rm'' \<noteq> None
   \<and> validateCommand RegExp_examples configured_manager ''ls la'' None
       = Inr \<lparr> isAllowed = True, reason = None \<rparr>
   \<and> policy_allows RegExp_examples dev_config ''ls la''"
proof -
  from validateCommand_verdict [OF getConfig_dev, of RegExp_examples "''ls la''", THEN conjunct1]
    validateCommand_dev_ls
  have "policy_allows RegExp_examples dev_config ''ls la''" by simp
  with validateCommand_dev_ls getConfig_dev RegExp_examples_compiles show ?thesis by simp
qed

text \<open>
  C2 as stated fails on \<open>prod\<close>, whose only deny pattern is \<^verbatim>\<open>(\<close>: the command
  \<^verbatim>\<open>ls la\<close> matches no deny pattern and there is no allow-list, so the policy allows it,
  but \<^verbatim>\<open>new RegExp("(")\<close> throws and no verdict is returned.
\<close>

theorem validateCommand_counterexample:
  "policy_allows RegExp_examples prod_config ''ls la''
   \<and> getConfig configured_manager (Some ''prod'') = Inr prod_config
   \<and> validateCommand RegExp_examples configured_manager ''ls la'' (Some ''prod'')
       = Inl (RegExpSyntaxError ''('')"
  by (simp add: validateCommand_def getConfig_prod prod_config_def configured_def
      patterns_def RegExp_examples_def literal_char_def policy_allows_def matches_def)

subsection \<open>C1: the local path check\<close>

lemma validateLocalPath_rejects_first:
  assumes "\<not> prefix (cwd e) (path_resolve (cwd e) localPath)"
  shows "upload e w localPath remotePath nm = (Rejected PathTraversal, w)"
    and "download e w remotePath localPath nm = (Rejected PathTraversal, w)"
  using assms by (simp_all add: upload_def download_def validateLocalPath_def)

text \<open>
  C1 does not hold of the code. With the working directory \<^verbatim>\<open>/srv/app\<close>, the local path
  \<^verbatim>\<open>../app-private/key.pem\<close> resolves to \<^verbatim>\<open>/srv/app-private/key.pem\<close>, which is
  outside the tree of \<^verbatim>\<open>/srv/app\<close> but starts with the same characters: the check
  passes, \<^verbatim>\<open>upload\<close> and \<^verbatim>\<open>download\<close> connect (client 0 is dialled) and the transfer
  runs.
\<close>

theorem upload_sibling_directory:
  "path_resolve (cwd demo_env) ''../app-private/key.pem'' = ''/srv/app-private/key.pem''
   \<and> \<not> within_tree (cwd demo_env) ''/srv/app-private/key.pem''
   \<and> validateLocalPath demo_env ''../app-private/key.pem'' = Inr ''/srv/app-private/key.pem''
   \<and> fst (upload demo_env configured_manager ''../app-private/key.pem'' ''/tmp/key.pem'' None)
       = Resolved ''File uploaded successfully''
   \<and> map fst (dialled (snd (upload demo_env configured_manager
                               ''../app-private/key.pem'' ''/tmp/key.pem'' None))) = [0]
   \<and> fst (download demo_env configured_manager ''/tmp/key.pem'' ''../app-private/key.pem'' None)
       = Resolved ''File downloaded successfully''
   \<and> map fst (dialled (snd (download demo_env configured_manager
                                 ''/tmp/key.pem'' ''../app-private/key.pem'' None))) = [0]"
  by code_simp

subsection \<open>C3, C8, C9: executeCommand\<close>

lemma on_stream_errorData: "on_stream d ed es = on_stream d ed' es"
proof (induction es arbitrary: d ed ed')
  case Nil
  show ?case by simp
next
  case (Cons ev es)
  then show ?case by (cases ev) simp_all
qed




text \<open>
  C3 does not hold of the code. The host of \<open>demo_env\<close> writes \<^verbatim>\<open>out\<close> on standard output
  and \<^verbatim>\<open>err\<close> on standard error before the stream closes; the allowed command
  \<^verbatim>\<open>ls la\<close> resolves with \<^verbatim>\<open>out\<close> alone. What arrived on standard error is collected
  in \<^verbatim>\<open>errorData\<close>, which nothing reads.
\<close>

theorem executeCommand_drops_stderr:
  "validateCommand RegExp_examples configured_manager ''ls la'' None
     = Inr \<lparr> isAllowed = True, reason = None \<rparr>
   \<and> exec demo_env 0 ''ls la'' 30000
       = ExecStream [Data ''out'', StderrData ''err'', Close (Some 2)]
   \<and> fst (executeCommand RegExp_examples demo_env configured_manager ''ls la'' None
            \<lparr>timeout = None\<rparr>) = Resolved ''out''"
  by code_simp



lemma executeCommand_zero_is_absent:
  "executeCommand rx e w cmdString nm \<lparr>timeout = Some 0\<rparr>
     = executeCommand rx e w cmdString nm \<lparr>timeout = None\<rparr>"
proof -
  have z: "effective_timeout \<lparr>timeout = Some 0\<rparr> = 30000"
    and n: "effective_timeout \<lparr>timeout = None\<rparr> = 30000"
    by (simp_all add: effective_timeout_def)
  show ?thesis
    unfolding executeCommand_def z n by (rule refl)
qed

lemma executeCommand_delay:
  assumes "validateCommand rx w cmdString nm = Inr v" and "isAllowed v"
    and "ensureConnected e w nm = (Resolved client, w1)"
    and "effective_timeout options = d"
  shows "executeCommand rx e w cmdString nm options
           = (case exec e client cmdString d of
                ExecErr msg \<Rightarrow> (Rejected (ExecutionError msg), w1)
              | ExecStream events \<Rightarrow> (on_stream [] [] events, w1))"
  using assms by (simp add: executeCommand_def)

lemma ensureConnected_ticking:
  "ensureConnected ticking_env configured_manager None
     = (Resolved 0, snd (ensureConnected ticking_env configured_manager None))"
proof -
  have "fst (ensureConnected ticking_env configured_manager None) = Resolved 0"
    by code_simp
  then show ?thesis by (simp add: prod_eq_iff)
qed

lemma exec_ticking:
  "exec ticking_env 0 ''ls la'' 30000
     = ExecStream [Data ''tick '', Data ''tick '', Data ''tick '', Close None]"
  "exec ticking_env 0 ''ls la'' 0 = ExecStream [Close None]"
  by (simp_all add: ticking_env_def demo_env_def numeral_3_eq_3)

text \<open>
  C9. For an allowed command on an established session, a timeout option of 0 or an
  absent one makes the effective timeout 30000, and 30000 is the delay \<^verbatim>\<open>executeCommand\<close>
  hands to the command stream: its outcome is that of the stream run with the delay
  30000. Any other timeout value is handed on as it is.
\<close>

theorem executeCommand_timeout_zero:
  assumes "validateCommand rx w cmdString nm = Inr v" and "isAllowed v"
    and "ensureConnected e w nm = (Resolved client, w1)"
    and "timeout options = None \<or> timeout options = Some 0"
  shows "effective_timeout options = 30000
       \<and> executeCommand rx e w cmdString nm options
           = (case exec e client cmdString 30000 of
                ExecErr msg \<Rightarrow> (Rejected (ExecutionError msg), w1)
              | ExecStream events \<Rightarrow> (on_stream [] [] events, w1))
       \<and> (\<forall>t. t \<noteq> 0 \<longrightarrow>
             executeCommand rx e w cmdString nm \<lparr>timeout = Some t\<rparr>
               = (case exec e client cmdString t of
                    ExecErr msg \<Rightarrow> (Rejected (ExecutionError msg), w1)
                  | ExecStream events \<Rightarrow> (on_stream [] [] events, w1)))"
proof (intro conjI allI impI)
  show d: "effective_timeout options = 30000"
    using assms(4) by (auto simp: effective_timeout_def)
  show "executeCommand rx e w cmdString nm options
           = (case exec e client cmdString 30000 of
                ExecErr msg \<Rightarrow> (Rejected (ExecutionError msg), w1)
              | ExecStream events \<Rightarrow> (on_stream [] [] events, w1))"
    by (rule executeCommand_delay [OF assms(1) assms(2) assms(3) d])
next
  fix t :: int
  assume "t \<noteq> 0"
  then have "effective_timeout \<lparr>timeout = Some t\<rparr> = t"
    by (simp add: effective_timeout_def)
  then show "executeCommand rx e w cmdString nm \<lparr>timeout = Some t\<rparr>
               = (case exec e client cmdString t of
                    ExecErr msg \<Rightarrow> (Rejected (ExecutionError msg), w1)
                  | ExecStream events \<Rightarrow> (on_stream [] [] events, w1))"
    by (rule executeCommand_delay [OF assms(1) assms(2) assms(3)])
qed

text \<open>
  The theorem on the host of \<open>ticking_env\<close>, whose output shows the delay: with the
  timeout 0 the command runs for 30000 ms and three ticks come back, where a stream asked
  to close at once would give none.
\<close>

theorem executeCommand_timeout_zero_witness:
  "validateCommand RegExp_examples configured_manager ''ls la'' None
     = Inr \<lparr> isAllowed = True, reason = None \<rparr>
   \<and> fst (ensureConnected ticking_env configured_manager None) = Resolved 0
   \<and> timeout \<lparr>timeout = Some 0\<rparr> = Some 0
   \<and> exec ticking_env 0 ''ls la'' 30000
       = ExecStream [Data ''tick '', Data ''tick '', Data ''tick '', Close None]
   \<and> exec ticking_env 0 ''ls la'' 0 = ExecStream [Close None]
   \<and> fst (executeCommand RegExp_examples ticking_env configured_manager ''ls la'' None
            \<lparr>timeout = Some 0\<rparr>) = Resolved ''tick tick tick ''"
proof -
  have o: "timeout \<lparr>timeout = Some 0\<rparr> = None \<or> timeout \<lparr>timeout = Some 0\<rparr> = Some 0"
    by simp
  note t = executeCommand_timeout_zero
      [OF validateCommand_dev_ls _ ensureConnected_ticking o, THEN conjunct2, THEN conjunct1]
  have r: "fst (executeCommand RegExp_examples ticking_env configured_manager ''ls la'' None
            \<lparr>timeout = Some 0\<rparr>) = Resolved ''tick tick tick ''"
    using t by (simp add: exec_ticking)
  have c: "fst (ensureConnected ticking_env configured_manager None) = Resolved 0"
    using ensureConnected_ticking by (metis fst_conv)
  have s: "timeout \<lparr>timeout = Some 0\<rparr> = Some 0" by simp
  show ?thesis
    by (intro conjI validateCommand_dev_ls c s exec_ticking r)
qed

subsection \<open>C7, C10: disconnect\<close>

text \<open>
  C7, as amended. After \<^verbatim>\<open>disconnect()\<close> no handle is stored, \<^verbatim>\<open>end()\<close> was called on
  every handle that was stored, and the descriptors, the default name, the connected
  flags and the status cache are what they were. No name counts as connected, so the next
  \<^verbatim>\<open>connect\<close> does not return at once.
\<close>

theorem disconnect_effect:
  "clients (disconnect w) = []
   \<and> ended (disconnect w) = ended w @ map snd (clients w)
   \<and> configs (disconnect w) = configs w
   \<and> defaultName (disconnect w) = defaultName w
   \<and> connected (disconnect w) = connected w
   \<and> statusCache (disconnect w) = statusCache w
   \<and> (\<forall>key. \<not> is_connected (disconnect w) key)
   \<and> (\<forall>e nm. connect_begin e (disconnect w) nm \<noteq> Noop)"
  by (auto simp: disconnect_def is_connected_def connect_begin_def Let_def
      split: sum.splits)

text \<open>
  C7 as stated fails after \<^verbatim>\<open>connect("dev")\<close>: when \<^verbatim>\<open>disconnect()\<close> has returned, the
  connected flag of \<open>dev\<close> is still true, and \<^verbatim>\<open>getAllServerInfos\<close> reports it so.
\<close>

theorem disconnect_counterexample:
  "connected connected_manager ''dev'' = Some True
   \<and> clients connected_manager = [(''dev'', 0)]
   \<and> clients (disconnect connected_manager) = []
   \<and> connected (disconnect connected_manager) ''dev'' = Some True
   \<and> map info_connected (getAllServerInfos (disconnect connected_manager)) = [True, False]"
  by code_simp

lemma statusCache_begin:
  "statusCache (after_begin w (connect_begin e w nm)) = statusCache w"
  by (auto simp: after_begin_def connect_begin_def Let_def split: sum.splits if_splits)

lemma statusCache_step:
  assumes "\<forall>c st. t \<noteq> StatusCollected c st"
  shows "statusCache (step rx e w t) = statusCache w"
proof (cases t)
  case (CallConnect nm)
  then show ?thesis by (simp add: step_def statusCache_begin)
next
  case (CallExecuteCommand cmd nm)
  then show ?thesis
    by (simp add: step_def Let_def statusCache_begin split: sum.splits)
next
  case (ClientReady c)
  then show ?thesis
    by (simp add: step_def connect_resume_def settle_def on_ready_def split: option.splits)
next
  case (ClientError c msg)
  then show ?thesis
    by (simp add: step_def settle_def on_error_def split: option.splits)
next
  case (ClientClose c)
  then show ?thesis
    by (simp add: step_def on_close_def split: option.splits)
next
  case (StatusCollected c st)
  with assms show ?thesis by simp
next
  case CallDisconnect
  then show ?thesis by (simp add: step_def disconnect_def)
qed

lemma reconnected_manager_facts:
  "(''dev'', dev_config) \<in> set (configs reconnected_manager)"
  "statusCache reconnected_manager ''dev'' = Some disk_snapshot"
  "key_of reconnected_manager 1 = Some ''dev''"
  "(1, ''dev'') \<in> set (collecting reconnected_manager)"
  by code_simp+

text \<open>
  C10, as amended. \<^verbatim>\<open>disconnect()\<close> itself leaves the status cache as it is:
  \<^verbatim>\<open>getAllServerInfos\<close> returns the same list right after it as right before, and every
  configured name with a cached snapshot is listed with that snapshot. It cancels no
  status collection. No turn but the completion of a status collection changes the
  cache, and the completion of a collection that was running at \<^verbatim>\<open>disconnect()\<close>
  replaces the snapshot of its name after it.
\<close>

theorem disconnect_keeps_snapshots:
  "statusCache (disconnect w) = statusCache w
   \<and> getAllServerInfos (disconnect w) = getAllServerInfos w
   \<and> (\<forall>key config snap.
        (key, config) \<in> set (configs w) \<and> statusCache w key = Some snap
        \<longrightarrow> (\<exists>i \<in> set (getAllServerInfos (disconnect w)).
               info_name i = key \<and> info_status i = Some snap))
   \<and> collecting (disconnect w) = collecting w
   \<and> (\<forall>rx e t. (\<forall>c st. t \<noteq> StatusCollected c st)
        \<longrightarrow> statusCache (step rx e w t) = statusCache w)
   \<and> (\<forall>rx e c key st.
        key_of w c = Some key \<and> (c, key) \<in> set (collecting w)
        \<longrightarrow> statusCache (step rx e (disconnect w) (StatusCollected c st))
              = (statusCache w)(key \<mapsto> st))"
proof (intro conjI allI impI)
  show "statusCache (disconnect w) = statusCache w"
    by (simp add: disconnect_def)
  show "getAllServerInfos (disconnect w) = getAllServerInfos w"
    by (simp add: disconnect_def getAllServerInfos_def)
  show "collecting (disconnect w) = collecting w"
    by (simp add: disconnect_def)
next
  fix key config snap
  assume "(key, config) \<in> set (configs w) \<and> statusCache w key = Some snap"
  then show "\<exists>i \<in> set (getAllServerInfos (disconnect w)).
               info_name i = key \<and> info_status i = Some snap"
    by (force simp: disconnect_def getAllServerInfos_def)
next
  fix rx e t
  assume "\<forall>c st. t \<noteq> StatusCollected c st"
  then show "statusCache (step rx e w t) = statusCache w"
    by (rule statusCache_step)
next
  fix rx :: regexp and e :: env and c key st
  assume r: "key_of w c = Some key \<and> (c, key) \<in> set (collecting w)"
  then have "key_of (disconnect w) c = Some key"
    and "(c, key) \<in> set (collecting (disconnect w))"
    by (simp_all add: key_of_def disconnect_def)
  then show "statusCache (step rx e (disconnect w) (StatusCollected c st))
              = (statusCache w)(key \<mapsto> st)"
    by (simp add: step_def status_collected_def disconnect_def)
qed

text \<open>
  The theorem on a registry that holds a snapshot for \<open>dev\<close> while the status collection
  of client 1 is running.
\<close>

theorem disconnect_keeps_snapshots_witness:
  "(''dev'', dev_config) \<in> set (configs reconnected_manager)
   \<and> statusCache reconnected_manager ''dev'' = Some disk_snapshot
   \<and> key_of reconnected_manager 1 = Some ''dev''
   \<and> (1, ''dev'') \<in> set (collecting reconnected_manager)
   \<and> (\<exists>i \<in> set (getAllServerInfos (disconnect reconnected_manager)).
        info_name i = ''dev'' \<and> info_status i = Some disk_snapshot)
   \<and> statusCache (step RegExp_examples demo_env (disconnect reconnected_manager)
                     (StatusCollected 1 failed_snapshot)) ''dev''
       = Some failed_snapshot"
proof -
  note f = reconnected_manager_facts
  note t = disconnect_keeps_snapshots [of reconnected_manager]
  from t f(1) f(2)
  have listed: "\<exists>i \<in> set (getAllServerInfos (disconnect reconnected_manager)).
        info_name i = ''dev'' \<and> info_status i = Some disk_snapshot"
    by blast
  from t f(3) f(4)
  have "statusCache (step RegExp_examples demo_env (disconnect reconnected_manager)
                       (StatusCollected 1 failed_snapshot))
          = (statusCache reconnected_manager)(''dev'' \<mapsto> failed_snapshot)"
    by blast
  then have replaced: "statusCache (step RegExp_examples demo_env (disconnect reconnected_manager)
                     (StatusCollected 1 failed_snapshot)) ''dev''
       = Some failed_snapshot"
    by simp
  show ?thesis
    by (intro conjI f listed replaced)
qed

text \<open>
  C10 as stated fails on that registry: \<open>dev\<close> has a snapshot before \<^verbatim>\<open>disconnect()\<close>,
  and after it, with no call of \<^verbatim>\<open>connect\<close>, the collection that client 1 started
  completes and \<^verbatim>\<open>getAllServerInfos\<close> returns another snapshot for \<open>dev\<close>. It also fails
  for a name that has a snapshot and no descriptor any more: \<^verbatim>\<open>getAllServerInfos\<close> does
  not list it.
\<close>

theorem disconnect_snapshot_counterexample:
  "statusCache reconnected_manager ''dev'' = Some disk_snapshot
   \<and> map info_status (getAllServerInfos
          (run RegExp_examples demo_env reconnected_manager [CallDisconnect]))
       = [Some disk_snapshot, None]
   \<and> map info_status (getAllServerInfos
          (run RegExp_examples demo_env reconnected_manager
             [CallDisconnect, StatusCollected 1 failed_snapshot]))
       = [Some failed_snapshot, None]
   \<and> disk_snapshot \<noteq> failed_snapshot
   \<and> statusCache reconfigured_manager ''dev'' = Some (basic_status ''2026-01-01T00:00:00.000Z'')
   \<and> map info_name (getAllServerInfos (disconnect reconfigured_manager)) = [''prod'']"
  by code_simp

subsection \<open>C4, C5: collectSystemStatus\<close>

lemma allSettled_catch:
  "\<forall>c \<in> set cs. catch_with (d c) (p c) = Resolved (r c) \<Longrightarrow>
   allSettled (map (\<lambda>c. catch_with (d c) (p c)) cs) = Some (map r cs)"
  by (induction cs) auto

lemma catch_with_Rejected: "p = Rejected err \<Longrightarrow> catch_with d p = Resolved d"
  by (simp add: catch_with_def)

lemma catch_with_Resolved: "p = Resolved v \<Longrightarrow> catch_with d p = Resolved v"
  by (simp add: catch_with_def)

lemma count_of_zero: "count_minus_header (parseInt ''0'') = Num 0"
  by code_simp

lemma nonblank_lines_empty: "nonblank_lines [] = []"
  by (simp add: nonblank_lines_def trim_def)

lemma match_free_total_nonempty: "match_free_total v = Some g \<Longrightarrow> v \<noteq> []"
  by (auto simp: match_free_total_here_def)

lemma results_all_failed:
  "map default_of batch
     = [[], [], [], [], [], [], [], [], [], [], [], [], [], ''0'', ''0'', ''0'', ''0'']"
  by (simp add: batch_def default_of_def)

lemma results_disk_only:
  "map (\<lambda>c. if c = DiskSpace then v else default_of c) batch
     = [[], [], [], [], [], [], v, [], [], [], [], [], [], ''0'', ''0'', ''0'', ''0'']"
  by (simp add: batch_def default_of_def)

lemma assemble_disk_only:
  "assemble fl now [[], [], [], [], [], [], v, [], [], [], [], [], [], ''0'', ''0'', ''0'', ''0'']
    = (basic_status now)
        \<lparr> diskSpace :=
            (if v \<noteq> []
             then map_option (\<lambda>(f, t). \<lparr> free = f, total = t \<rparr>) (match_free_total v)
             else None),
          processes := Some \<lparr> running = Num 0, threads = Num 0 \<rparr>,
          services := Some \<lparr> services_running = Num 0, installed = Num 0 \<rparr> \<rparr>"
  by (simp add: assemble_def basic_status_def nonempty_def count_of_zero
      nonblank_lines_empty trim_def)

lemma lastUpdated_assemble: "lastUpdated (assemble fl now r) = Some now"
  by (simp add: assemble_def Let_def)

lemma failing_remote_rejects:
  "execCommand failing_remote c = Rejected (CommandExited (Some 127))"
  by (simp add: execCommand_def failing_remote_def)

lemma disk_only_remote_rejects:
  "c \<noteq> DiskSpace \<Longrightarrow> execCommand disk_only_remote c = Rejected (CommandExited (Some 127))"
  by (simp add: execCommand_def disk_only_remote_def)

lemma disk_only_remote_disk:
  "execCommand disk_only_remote DiskSpace = Resolved ''free:12G total:40G''"
  by code_simp

lemma disk_only_parse: "match_free_total ''free:12G total:40G'' = Some (''12G'', ''40G'')"
  by code_simp

text \<open>
  C4, as amended. \<^verbatim>\<open>collectSystemStatus\<close> has no error result: once every diagnostic
  command has settled it returns a snapshot with the timestamp set. When every command
  fails, that snapshot has \<^verbatim>\<open>processes\<close> and \<^verbatim>\<open>services\<close> populated by zero counts and
  no other optional field.
\<close>

theorem collect_all_commands_fail:
  "((\<forall>c. execCommand client c \<noteq> Pending)
      \<longrightarrow> (\<exists>st. collectSystemStatus fl client now = Some st \<and> lastUpdated st = Some now))
   \<and> ((\<forall>c. \<exists>err. execCommand client c = Rejected err)
      \<longrightarrow> (\<exists>st. collectSystemStatus fl client now = Some st
           \<and> lastUpdated st = Some now
           \<and> hostname st = None \<and> ipAddresses st = None \<and> osName st = None
           \<and> osVersion st = None \<and> kernelVersion st = None \<and> uptime st = None
           \<and> diskSpace st = None \<and> memory st = None \<and> cpu st = None \<and> gpus st = None
           \<and> drives st = None
           \<and> processes st = Some \<lparr> running = Num 0, threads = Num 0 \<rparr>
           \<and> services st = Some \<lparr> services_running = Num 0, installed = Num 0 \<rparr>))"
proof (intro conjI impI)
  assume settled: "\<forall>c. execCommand client c \<noteq> Pending"
  let ?r = "\<lambda>c. case execCommand client c of Resolved v \<Rightarrow> v | _ \<Rightarrow> default_of c"
  have "\<forall>c \<in> set batch. catch_with (default_of c) (execCommand client c) = Resolved (?r c)"
    using settled by (auto simp: catch_with_def split: promise.splits)
  then have "allSettled (map (\<lambda>c. catch_with (default_of c) (execCommand client c)) batch)
      = Some (map ?r batch)"
    by (rule allSettled_catch)
  then show "\<exists>st. collectSystemStatus fl client now = Some st \<and> lastUpdated st = Some now"
    by (simp add: collectSystemStatus_def lastUpdated_assemble)
next
  assume failed: "\<forall>c. \<exists>err. execCommand client c = Rejected err"
  have "\<forall>c \<in> set batch.
          catch_with (default_of c) (execCommand client c) = Resolved (default_of c)"
    using failed by (auto intro: catch_with_Rejected)
  then have "allSettled (map (\<lambda>c. catch_with (default_of c) (execCommand client c)) batch)
      = Some (map default_of batch)"
    by (rule allSettled_catch)
  then have "collectSystemStatus fl client now
      = Some (assemble fl now
                [[], [], [], [], [], [], [], [], [], [], [], [], [], ''0'', ''0'', ''0'', ''0''])"
    by (simp add: collectSystemStatus_def results_all_failed)
  then show "\<exists>st. collectSystemStatus fl client now = Some st
           \<and> lastUpdated st = Some now
           \<and> hostname st = None \<and> ipAddresses st = None \<and> osName st = None
           \<and> osVersion st = None \<and> kernelVersion st = None \<and> uptime st = None
           \<and> diskSpace st = None \<and> memory st = None \<and> cpu st = None \<and> gpus st = None
           \<and> drives st = None
           \<and> processes st = Some \<lparr> running = Num 0, threads = Num 0 \<rparr>
           \<and> services st = Some \<lparr> services_running = Num 0, installed = Num 0 \<rparr>"
    by (simp add: assemble_disk_only basic_status_def)
qed

text \<open>The theorem on a session where every command exits with code 127.\<close>

theorem collect_all_commands_fail_witness:
  "(\<forall>c. execCommand failing_remote c = Rejected (CommandExited (Some 127)))
   \<and> (\<exists>st. collectSystemStatus no_floats failing_remote ''2026-01-01T00:00:00.000Z'' = Some st
         \<and> lastUpdated st = Some ''2026-01-01T00:00:00.000Z''
         \<and> hostname st = None
         \<and> processes st = Some \<lparr> running = Num 0, threads = Num 0 \<rparr>
         \<and> services st = Some \<lparr> services_running = Num 0, installed = Num 0 \<rparr>)"
proof -
  have f: "\<forall>c. \<exists>err. execCommand failing_remote c = Rejected err"
    by (simp add: failing_remote_rejects)
  note t = collect_all_commands_fail
      [of failing_remote no_floats "''2026-01-01T00:00:00.000Z''", THEN conjunct2, THEN mp, OF f]
  from t show ?thesis by (auto simp: failing_remote_rejects)
qed

text \<open>
  C4 as stated fails on that session: every command fails, yet the snapshot has
  \<^verbatim>\<open>reachable\<close> true and holds \<^verbatim>\<open>processes\<close> and \<^verbatim>\<open>services\<close>.
\<close>

theorem collect_all_fail_counterexample:
  "map (execCommand failing_remote) batch = replicate 17 (Rejected (CommandExited (Some 127)))
   \<and> collectSystemStatus no_floats failing_remote ''2026-01-01T00:00:00.000Z''
     = Some \<lparr> reachable = True, hostname = None, ipAddresses = None, osName = None,
              osVersion = None, kernelVersion = None, uptime = None, diskSpace = None,
              drives = None, memory = None, cpu = None, gpus = None,
              processes = Some \<lparr> running = Num 0, threads = Num 0 \<rparr>,
              services = Some \<lparr> services_running = Num 0, installed = Num 0 \<rparr>,
              lastUpdated = Some ''2026-01-01T00:00:00.000Z'' \<rparr>"
  by code_simp

text \<open>
  C5, as amended. When the disk-usage command is the only one to succeed and its output
  has the \<^verbatim>\<open>free:... total:...\<close> form, \<^verbatim>\<open>collectSystemStatus\<close> returns a snapshot in
  which \<^verbatim>\<open>diskSpace\<close> holds the two values, \<^verbatim>\<open>processes\<close> and \<^verbatim>\<open>services\<close> hold zero
  counts, and every other optional field but the timestamp is absent.
\<close>

theorem collect_only_disk_usage:
  assumes disk: "execCommand client DiskSpace = Resolved v"
    and parse: "match_free_total v = Some (f, t)"
    and rest: "\<forall>c. c \<noteq> DiskSpace \<longrightarrow> (\<exists>err. execCommand client c = Rejected err)"
  shows "collectSystemStatus fl client now
           = Some ((basic_status now)
                \<lparr> diskSpace := Some \<lparr> free = f, total = t \<rparr>,
                  processes := Some \<lparr> running = Num 0, threads = Num 0 \<rparr>,
                  services := Some \<lparr> services_running = Num 0, installed = Num 0 \<rparr> \<rparr>)"
proof -
  let ?r = "\<lambda>c. if c = DiskSpace then v else default_of c"
  have "\<forall>c \<in> set batch. catch_with (default_of c) (execCommand client c) = Resolved (?r c)"
    using disk rest by (auto intro: catch_with_Rejected catch_with_Resolved)
  then have "allSettled (map (\<lambda>c. catch_with (default_of c) (execCommand client c)) batch)
      = Some (map ?r batch)"
    by (rule allSettled_catch)
  then have "collectSystemStatus fl client now
      = Some (assemble fl now
                [[], [], [], [], [], [], v, [], [], [], [], [], [], ''0'', ''0'', ''0'', ''0''])"
    by (simp add: collectSystemStatus_def results_disk_only)
  moreover have "v \<noteq> []" using parse by (rule match_free_total_nonempty)
  ultimately show ?thesis
    using parse by (simp add: assemble_disk_only)
qed

text \<open>The theorem on a session where only \<^verbatim>\<open>df\<close> works and prints \<^verbatim>\<open>free:12G total:40G\<close>.\<close>

theorem collect_only_disk_usage_witness:
  "execCommand disk_only_remote DiskSpace = Resolved ''free:12G total:40G''
   \<and> match_free_total ''free:12G total:40G'' = Some (''12G'', ''40G'')
   \<and> execCommand disk_only_remote Hostname = Rejected (CommandExited (Some 127))
   \<and> collectSystemStatus no_floats disk_only_remote ''2026-01-01T00:00:00.000Z''
       = Some ((basic_status ''2026-01-01T00:00:00.000Z'')
            \<lparr> diskSpace := Some \<lparr> free = ''12G'', total = ''40G'' \<rparr>,
              processes := Some \<lparr> running = Num 0, threads = Num 0 \<rparr>,
              services := Some \<lparr> services_running = Num 0, installed = Num 0 \<rparr> \<rparr>)"
proof -
  have r: "\<forall>c. c \<noteq> DiskSpace \<longrightarrow> (\<exists>err. execCommand disk_only_remote c = Rejected err)"
    by (simp add: disk_only_remote_rejects)
  have h: "execCommand disk_only_remote Hostname = Rejected (CommandExited (Some 127))"
    by (simp add: disk_only_remote_rejects)
  note s = collect_only_disk_usage [OF disk_only_remote_disk disk_only_parse r,
      of no_floats "''2026-01-01T00:00:00.000Z''"]
  show ?thesis
    by (intro conjI disk_only_remote_disk disk_only_parse h s)
qed

text \<open>
  C5 as stated fails on that session: only the disk-usage command succeeds, and the
  snapshot holds \<^verbatim>\<open>processes\<close> and \<^verbatim>\<open>services\<close> beside \<^verbatim>\<open>diskSpace\<close>.
\<close>

theorem collect_only_disk_counterexample:
  "map (execCommand disk_only_remote) batch
     = replicate 6 (Rejected (CommandExited (Some 127)))
       @ [Resolved ''free:12G total:40G'']
       @ replicate 10 (Rejected (CommandExited (Some 127)))
   \<and> map_option diskSpace
        (collectSystemStatus no_floats disk_only_remote ''2026-01-01T00:00:00.000Z'')
       = Some (Some \<lparr> free = ''12G'', total = ''40G'' \<rparr>)
   \<and> map_option processes
        (collectSystemStatus no_floats disk_only_remote ''2026-01-01T00:00:00.000Z'')
       = Some (Some \<lparr> running = Num 0, threads = Num 0 \<rparr>)
   \<and> map_option services
        (collectSystemStatus no_floats disk_only_remote ''2026-01-01T00:00:00.000Z'')
       = Some (Some \<lparr> services_running = Num 0, installed = Num 0 \<rparr>)"
  by code_simp

subsection \<open>C6: connect calls that overlap\<close>

lemma connect_begin_Dialled:
  assumes "connect_begin e w nm = Dialled c key cfg w1"
  shows "c = created w" and "key = or_else nm (defaultName w)" and "\<not> is_connected w key"
    and "w1 = w\<lparr>created := Suc (created w), dialled := dialled w @ [(c, key, cfg)],
                 inflight := inflight w @ [(c, key)]\<rparr>"
  using assms
  by (auto simp: connect_begin_def Let_def split: if_splits sum.splits)

lemma connect_begin_cong:
  assumes "connect_begin e w nm = Dialled c key cfg w1"
    and "configs w' = configs w" and "defaultName w' = defaultName w"
    and "clients w' = clients w" and "connected w' = connected w"
  shows "connect_begin e w' nm =
           Dialled (created w') key cfg
             (w'\<lparr>created := Suc (created w'),
                 dialled := dialled w' @ [(created w', key, cfg)],
                 inflight := inflight w' @ [(created w', key)]\<rparr>)"
  using assms
  by (auto simp: connect_begin_def Let_def getConfig_def is_connected_def
      split: if_splits sum.splits option.splits)

lemma connect_begin_Noop:
  "(connect_begin e w nm = Noop) = is_connected w (or_else nm (defaultName w))"
  by (auto simp: connect_begin_def Let_def split: sum.splits if_splits)

lemma key_of_fresh:
  assumes "\<forall>(c', k, cfg') \<in> set ds. c' \<noteq> c"
  shows "map_of (map (\<lambda>(c, k, cfg). (c, k)) (ds @ [(c, key, cfg)] @ rest)) c = Some key"
  using assms by (induction ds) auto

lemma connect_begin_dev:
  "connect_begin demo_env configured_manager (Some ''dev'')
     = Dialled 0 ''dev'' dev_connect_config
         (configured_manager\<lparr>created := 1, dialled := [(0, ''dev'', dev_connect_config)],
                             inflight := [(0, ''dev'')]\<rparr>)"
  by (simp add: connect_begin_def or_else_def is_connected_def getConfig_def
      configured_manager_def setConfig_def initial_def dev_config_def truthy_def
      demo_env_def dev_connect_config_def Let_def)

text \<open>
  Client numbers are given out in order: every client that was dialled has a number below
  the count of clients created. This holds of the registry as configured and is kept by
  every turn.
\<close>

lemma ids_below_created_configured:
  "\<forall>(c, k, cfg) \<in> set (dialled (setConfig cfgs dflt initial)).
     c < created (setConfig cfgs dflt initial)"
  by (simp add: setConfig_def initial_def Let_def split: option.splits list.splits)

lemma ids_below_created_begin:
  "\<forall>(c, k, cfg) \<in> set (dialled w). c < created w \<Longrightarrow>
   \<forall>(c, k, cfg) \<in> set (dialled (after_begin w (connect_begin e w nm))).
     c < created (after_begin w (connect_begin e w nm))"
  by (auto simp: after_begin_def connect_begin_def Let_def
      split: sum.splits if_splits)

lemma ids_below_created_step:
  assumes "\<forall>(c, k, cfg) \<in> set (dialled w). c < created w"
  shows "\<forall>(c, k, cfg) \<in> set (dialled (step rx e w t)). c < created (step rx e w t)"
proof (cases t)
  case (CallConnect nm)
  then show ?thesis using ids_below_created_begin [OF assms] by (simp add: step_def)
next
  case (CallExecuteCommand cmd nm)
  then show ?thesis using ids_below_created_begin [OF assms] assms
    by (simp add: step_def Let_def split: sum.splits)
next
  case (ClientReady c)
  then show ?thesis using assms
    by (simp add: step_def connect_resume_def settle_def on_ready_def split: option.splits)
next
  case (ClientError c msg)
  then show ?thesis using assms
    by (simp add: step_def settle_def on_error_def split: option.splits)
next
  case (ClientClose c)
  then show ?thesis using assms
    by (simp add: step_def on_close_def split: option.splits)
next
  case (StatusCollected c st)
  then show ?thesis using assms
    by (simp add: step_def status_collected_def split: option.splits)
next
  case CallDisconnect
  then show ?thesis using assms
    by (simp add: step_def disconnect_def)
qed

text \<open>
  A call of \<^verbatim>\<open>connect\<close> that runs alone is the turn of the call followed by the turn of
  the client's \<^verbatim>\<open>ready\<close> event.
\<close>

lemma connect_as_turns:
  assumes b: "connect_begin e w nm = Dialled c key cfg w1"
    and h: "handshake e c cfg = HsReady"
    and fresh: "\<forall>(c', k, cfg') \<in> set (dialled w). c' < created w"
  shows "snd (connect e w nm) = run rx e w [CallConnect nm, ClientReady c]"
proof -
  note d = connect_begin_Dialled [OF b]
  have "map_of (map (\<lambda>(c, k, cfg). (c, k)) (dialled w @ [(c, key, cfg)] @ [])) c = Some key"
    using fresh d(1) by (intro key_of_fresh) auto
  then have k: "key_of w1 c = Some key"
    by (simp add: key_of_def d(4))
  have i: "(c, key) \<in> set (inflight w1)"
    by (simp add: d(4))
  show ?thesis
    by (simp add: connect_def b h run_def step_def after_begin_def k i)
qed

text \<open>
  C6, as amended. \<^verbatim>\<open>connect\<close> returns at once only for a name whose flag is set and whose
  handle is stored. When a call of \<^verbatim>\<open>connect(name)\<close> has started an authentication
  (client \<open>c\<close>), a second call for the name made before the first is ready starts one of
  its own (client \<open>c + 1\<close>), and so does an allowed \<^verbatim>\<open>executeCommand\<close> for the name: two
  sequences are in flight. Whenever a client in flight becomes ready, its handle is stored
  for the name; so when both clients become ready, in either order, the handle stored for
  the name is that of the client that became ready last, and \<^verbatim>\<open>end()\<close> was called on
  neither.
\<close>

theorem connect_not_deduplicated:
  assumes first: "connect_begin e w nm = Dialled c key cfg w1"
    and fresh: "\<forall>(c', k, cfg') \<in> set (dialled w). c' < created w"
  shows "(\<forall>w' nm'. (connect_begin e w' nm' = Noop)
                      = is_connected w' (or_else nm' (defaultName w')))
       \<and> (\<exists>w2. connect_begin e w1 nm = Dialled (Suc c) key cfg w2
            \<and> inflight w2 = inflight w @ [(c, key), (Suc c, key)])
       \<and> inflight (run rx e w [CallConnect nm, CallConnect nm])
            = inflight w @ [(c, key), (Suc c, key)]
       \<and> (\<forall>cmd v. validateCommand rx w1 cmd nm = Inr v \<and> isAllowed v
            \<longrightarrow> inflight (run rx e w [CallConnect nm, CallExecuteCommand cmd nm])
                  = inflight w @ [(c, key), (Suc c, key)])
       \<and> map_of (clients (run rx e w [CallConnect nm, CallConnect nm,
                                         ClientReady c, ClientReady (Suc c)])) key
            = Some (Suc c)
       \<and> ended (run rx e w [CallConnect nm, CallConnect nm,
                              ClientReady c, ClientReady (Suc c)]) = ended w
       \<and> map_of (clients (run rx e w [CallConnect nm, CallConnect nm,
                                         ClientReady (Suc c), ClientReady c])) key
            = Some c
       \<and> ended (run rx e w [CallConnect nm, CallConnect nm,
                              ClientReady (Suc c), ClientReady c]) = ended w
       \<and> (\<forall>w' c' key'. key_of w' c' = Some key' \<and> (c', key') \<in> set (inflight w')
            \<longrightarrow> map_of (clients (step rx e w' (ClientReady c'))) key' = Some c')"
proof -
  note d = connect_begin_Dialled [OF first]
  define w2 where "w2 = w1\<lparr>created := Suc (created w1),
                 dialled := dialled w1 @ [(created w1, key, cfg)],
                 inflight := inflight w1 @ [(created w1, key)]\<rparr>"
  have second: "connect_begin e w1 nm = Dialled (created w1) key cfg w2"
    unfolding w2_def by (rule connect_begin_cong [OF first]) (simp_all add: d(4))
  have c1: "created w1 = Suc c" by (simp add: d(4) d(1))
  have in2: "inflight w2 = inflight w @ [(c, key), (Suc c, key)]"
    by (simp add: w2_def d(4) d(1))
  have s1: "step rx e w (CallConnect nm) = w1"
    by (simp add: step_def after_begin_def first)
  have s2: "step rx e w1 (CallConnect nm) = w2"
    by (simp add: step_def after_begin_def second)
  have k1: "or_else (Some key) (defaultName w1) = key"
    using d(2) by (auto simp: or_else_def d(4) split: option.splits if_splits)
  have nc1: "\<not> is_connected w1 key"
    using d(3) by (simp add: d(4) is_connected_def)
  have second': "connect_begin e w1 (Some key) = Dialled (created w1) key cfg w2"
    using second k1 d(2) by (simp add: connect_begin_def d(4))
  have dl2: "dialled w2 = dialled w @ [(c, key, cfg)] @ [(Suc c, key, cfg)]"
    by (simp add: w2_def d(4) d(1))
  have kc: "key_of w2 c = Some key"
    unfolding key_of_def dl2 using fresh d(1) by (intro key_of_fresh) auto
  define w3 where "w3 = connect_resume c key (settle c (on_ready c key w2))"
  have s3: "step rx e w2 (ClientReady c) = w3"
    by (simp add: step_def kc in2 w3_def)
  have dl3: "dialled w3 = dialled w2"
    by (simp add: w3_def connect_resume_def settle_def on_ready_def)
  have kc3: "key_of w3 (Suc c) = Some key"
  proof -
    have "map_of (map (\<lambda>(c, k, cfg). (c, k))
                   ((dialled w @ [(c, key, cfg)]) @ [(Suc c, key, cfg)] @ [])) (Suc c)
            = Some key"
      using fresh d(1) by (intro key_of_fresh) auto
    then show ?thesis by (simp add: key_of_def dl3 dl2)
  qed
  have in3: "(Suc c, key) \<in> set (inflight w3)"
    by (simp add: w3_def connect_resume_def settle_def on_ready_def in2)
  define w4 where "w4 = connect_resume (Suc c) key (settle (Suc c) (on_ready (Suc c) key w3))"
  have s4: "step rx e w3 (ClientReady (Suc c)) = w4"
    by (simp add: step_def kc3 in3 w4_def)
  have cl4: "map_of (clients w4) key = Some (Suc c)"
    by (simp add: w4_def connect_resume_def update_conv')
  have en4: "ended w4 = ended w"
    by (simp add: w4_def w3_def w2_def d(4) connect_resume_def settle_def on_ready_def)
  have r4: "run rx e w [CallConnect nm, CallConnect nm, ClientReady c, ClientReady (Suc c)] = w4"
    by (simp add: run_def s1 s2 s3 s4)
  have r2: "run rx e w [CallConnect nm, CallConnect nm] = w2"
    by (simp add: run_def s1 s2)
  have ex: "run rx e w [CallConnect nm, CallExecuteCommand cmd nm] = w2"
    if v: "validateCommand rx w1 cmd nm = Inr v" and a: "isAllowed v" for cmd v
  proof -
    have k: "or_else nm (defaultName w1) = key"
      using d(2) by (simp add: d(4))
    have "step rx e w1 (CallExecuteCommand cmd nm) = w2"
      using nc1 by (simp add: step_def v a k second' after_begin_def)
    then show ?thesis by (simp add: run_def s1)
  qed
  have noop: "\<forall>w' nm'. (connect_begin e w' nm' = Noop)
                      = is_connected w' (or_else nm' (defaultName w'))"
    by (simp add: connect_begin_Noop)
  have again: "\<exists>w2. connect_begin e w1 nm = Dialled (Suc c) key cfg w2
            \<and> inflight w2 = inflight w @ [(c, key), (Suc c, key)]"
    using second c1 in2 by auto
  have two: "inflight (run rx e w [CallConnect nm, CallConnect nm])
            = inflight w @ [(c, key), (Suc c, key)]"
    using r2 in2 by simp
  have two': "\<forall>cmd v. validateCommand rx w1 cmd nm = Inr v \<and> isAllowed v
            \<longrightarrow> inflight (run rx e w [CallConnect nm, CallExecuteCommand cmd nm])
                  = inflight w @ [(c, key), (Suc c, key)]"
    using ex in2 by auto
  have later: "map_of (clients (run rx e w [CallConnect nm, CallConnect nm,
                                         ClientReady c, ClientReady (Suc c)])) key
            = Some (Suc c)"
    using r4 cl4 by simp
  have none_ended: "ended (run rx e w [CallConnect nm, CallConnect nm,
                              ClientReady c, ClientReady (Suc c)]) = ended w"
    using r4 en4 by simp
  have kc2: "key_of w2 (Suc c) = Some key"
  proof -
    have "map_of (map (\<lambda>(c, k, cfg). (c, k))
                   ((dialled w @ [(c, key, cfg)]) @ [(Suc c, key, cfg)] @ [])) (Suc c)
            = Some key"
      using fresh d(1) by (intro key_of_fresh) auto
    then show ?thesis by (simp add: key_of_def dl2)
  qed
  define v3 where "v3 = connect_resume (Suc c) key (settle (Suc c) (on_ready (Suc c) key w2))"
  have t3: "step rx e w2 (ClientReady (Suc c)) = v3"
    by (simp add: step_def kc2 in2 v3_def)
  have kv3: "key_of v3 c = Some key"
    using kc by (simp add: key_of_def v3_def connect_resume_def settle_def on_ready_def)
  have iv3: "(c, key) \<in> set (inflight v3)"
    by (simp add: v3_def connect_resume_def settle_def on_ready_def in2)
  define v4 where "v4 = connect_resume c key (settle c (on_ready c key v3))"
  have t4: "step rx e v3 (ClientReady c) = v4"
    by (simp add: step_def kv3 iv3 v4_def)
  have q4: "run rx e w [CallConnect nm, CallConnect nm, ClientReady (Suc c), ClientReady c] = v4"
    by (simp add: run_def s1 s2 t3 t4)
  have earlier: "map_of (clients (run rx e w [CallConnect nm, CallConnect nm,
                                         ClientReady (Suc c), ClientReady c])) key
            = Some c"
    by (simp add: q4 v4_def connect_resume_def update_conv')
  have none_ended': "ended (run rx e w [CallConnect nm, CallConnect nm,
                              ClientReady (Suc c), ClientReady c]) = ended w"
    by (simp add: q4 v4_def v3_def w2_def d(4) connect_resume_def settle_def on_ready_def)
  have any: "\<forall>w' c' key'. key_of w' c' = Some key' \<and> (c', key') \<in> set (inflight w')
            \<longrightarrow> map_of (clients (step rx e w' (ClientReady c'))) key' = Some c'"
    by (simp add: step_def connect_resume_def update_conv')
  show ?thesis
    by (intro conjI noop again two two' later none_ended earlier none_ended' any)
qed

text \<open>The theorem on the example registry, for two calls of \<^verbatim>\<open>connect("dev")\<close>.\<close>

theorem connect_not_deduplicated_witness:
  "connect_begin demo_env configured_manager (Some ''dev'')
     = Dialled 0 ''dev'' dev_connect_config
         (configured_manager\<lparr>created := 1, dialled := [(0, ''dev'', dev_connect_config)],
                             inflight := [(0, ''dev'')]\<rparr>)
   \<and> dialled configured_manager = []
   \<and> inflight (run RegExp_examples demo_env configured_manager
                  [CallConnect (Some ''dev''), CallConnect (Some ''dev'')])
       = [(0, ''dev''), (1, ''dev'')]
   \<and> map_of (clients (run RegExp_examples demo_env configured_manager
                         [CallConnect (Some ''dev''), CallConnect (Some ''dev''),
                          ClientReady 0, ClientReady 1])) ''dev'' = Some 1
   \<and> map_of (clients (run RegExp_examples demo_env configured_manager
                         [CallConnect (Some ''dev''), CallConnect (Some ''dev''),
                          ClientReady 1, ClientReady 0])) ''dev'' = Some 0"
proof -
  have d: "dialled configured_manager = []"
    by (simp add: configured_manager_def setConfig_def initial_def)
  have i: "inflight configured_manager = []"
    by (simp add: configured_manager_def setConfig_def initial_def)
  have f: "\<forall>(c', k, cfg') \<in> set (dialled configured_manager). c' < created configured_manager"
    by (simp add: d)
  note t0 = connect_not_deduplicated [OF connect_begin_dev f, of RegExp_examples]
  note t = t0 [THEN conjunct2]
  have two: "inflight (run RegExp_examples demo_env configured_manager
                  [CallConnect (Some ''dev''), CallConnect (Some ''dev'')])
       = [(0, ''dev''), (1, ''dev'')]"
    using t i by simp
  have later: "map_of (clients (run RegExp_examples demo_env configured_manager
                         [CallConnect (Some ''dev''), CallConnect (Some ''dev''),
                          ClientReady 0, ClientReady 1])) ''dev'' = Some 1"
    using t by simp
  have earlier: "map_of (clients (run RegExp_examples demo_env configured_manager
                         [CallConnect (Some ''dev''), CallConnect (Some ''dev''),
                          ClientReady 1, ClientReady 0])) ''dev'' = Some 0"
    using t by simp
  show ?thesis
    by (intro conjI connect_begin_dev d two later earlier)
qed

text \<open>
  C6 as stated fails on the example registry: after two calls of \<^verbatim>\<open>connect("dev")\<close>, or
  one followed by an allowed \<^verbatim>\<open>executeCommand\<close>, two authentication sequences are in
  flight (clients 0 and 1). Once both are ready, the handle of \<open>dev\<close> is the client that
  became ready last (client 1 in one order, client 0 in the other), both clients were
  dialled, and \<^verbatim>\<open>end()\<close> was called on neither.
\<close>

theorem connect_twice_counterexample:
  "inflight (run RegExp_examples demo_env configured_manager
               [CallConnect (Some ''dev''), CallConnect (Some ''dev'')])
     = [(0, ''dev''), (1, ''dev'')]
   \<and> inflight (run RegExp_examples demo_env configured_manager
                  [CallConnect (Some ''dev''), CallExecuteCommand ''ls la'' (Some ''dev'')])
       = [(0, ''dev''), (1, ''dev'')]
   \<and> clients (run RegExp_examples demo_env configured_manager
                 [CallConnect (Some ''dev''), CallConnect (Some ''dev''),
                  ClientReady 0, ClientReady 1]) = [(''dev'', 1)]
   \<and> map fst (dialled (run RegExp_examples demo_env configured_manager
                 [CallConnect (Some ''dev''), CallConnect (Some ''dev''),
                  ClientReady 0, ClientReady 1])) = [0, 1]
   \<and> ended (run RegExp_examples demo_env configured_manager
                 [CallConnect (Some ''dev''), CallConnect (Some ''dev''),
                  ClientReady 0, ClientReady 1]) = []
   \<and> clients (run RegExp_examples demo_env configured_manager
                 [CallConnect (Some ''dev''), CallConnect (Some ''dev''),
                  ClientReady 1, ClientReady 0]) = [(''dev'', 0)]
   \<and> ended (run RegExp_examples demo_env configured_manager
                 [CallConnect (Some ''dev''), CallConnect (Some ''dev''),
                  ClientReady 1, ClientReady 0]) = []"
  by code_simp

end
